theory Spec2Isabelle
  imports Main
begin

section \<open>Data model (the Prisma schema, as the services use it)\<close>

text \<open>
  Identifiers are the TEXT keys of the schema. Monetary columns are 32-bit INTEGER minor
  units: a field is an \<open>int\<close>, and a write whose value does not fit 32 bits is refused by
  the store (\<open>int32\<close>, \<open>IntegerOutOfRange\<close> below); timestamps (\<open>new Date()\<close>) are natural numbers
  handed to the operation that stamps them. Enum constructors carry a prefix per enum
  because several enums of the schema share value names (PENDING, ACTIVE, DEPOSIT, ...).
  Columns that the store fills by itself and no operation reads (\<open>createdAt\<close>,
  \<open>updatedAt\<close>, the generated \<open>id\<close> of a transaction row) are left out, as are the
  maximal wait and the timeout of a transaction.
\<close>

type_synonym ident = string

datatype Role = CLIENT | FREELANCER | ADMIN

datatype UserStatus = U_ACTIVE | U_SUSPENDED | U_BANNED

datatype TransactionType = T_DEPOSIT | T_WITHDRAWAL | T_HOLD | T_RELEASE | T_ADJUSTMENT

datatype EscrowTransactionType = E_DEPOSIT | E_RELEASE | E_REFUND

datatype EscrowStatus = ES_ACTIVE | ES_COMPLETED | ES_CANCELED

datatype ContractStatus =
  C_PENDING | C_ACTIVE | C_REVIEW_PENDING | C_COMPLETED | C_DISPUTED | C_TERMINATED

datatype MilestoneStatus =
  M_PENDING | M_IN_PROGRESS | M_SUBMITTED | M_APPROVED | M_PAID | M_DISPUTED
  | M_CANCELED | M_COMPLETED | M_REJECTED

record User =
  u_role :: Role
  u_status :: UserStatus

record Wallet =
  w_id :: ident
  availableBalance :: int
  pendingBalance :: int

record WalletTransaction =
  wt_walletId :: ident
  wt_amount :: int
  wt_type :: TransactionType
  wt_relatedId :: "ident option"
  wt_metadata :: string

record EscrowAccount =
  ea_id :: ident
  ea_contractId :: ident
  ea_clientId :: ident
  ea_freelancerId :: ident
  heldAmount :: int
  initialAmount :: int
  ea_status :: EscrowStatus

record EscrowTransaction =
  et_escrowAccountId :: ident
  et_amount :: int
  et_type :: EscrowTransactionType
  et_sourceWalletId :: "ident option"
  et_destinationWalletId :: "ident option"
  et_description :: string

record Contract =
  c_id :: ident
  c_clientId :: ident
  c_freelancerId :: ident
  c_jobId :: ident
  c_status :: ContractStatus
  c_amount :: int
  c_startDate :: nat
  c_endDate :: "nat option"
  c_submittedAt :: "nat option"

record Milestone =
  m_id :: ident
  m_contractId :: ident
  m_sequence :: int
  m_title :: string
  m_description :: "string option"
  m_amount :: int
  m_status :: MilestoneStatus
  m_dueDate :: "nat option"
  m_approvedAt :: "nat option"
  m_submittedAt :: "nat option"
  m_disputedAt :: "nat option"
  m_deletionRequestedAt :: "nat option"

text \<open>
  The store. Tables that the code reaches only through one unique key are maps on that
  key: users and contracts by \<open>id\<close>, wallets by \<open>userId\<close> (unique index
  \<open>Wallet_userId_key\<close>). Escrow accounts and milestones are reached both by \<open>id\<close> and by
  \<open>contractId\<close>, so they are lists of rows; the two transaction logs are lists in
  insertion order.
\<close>

record store =
  users :: "ident \<rightharpoonup> User"
  contracts :: "ident \<rightharpoonup> Contract"
  wallets :: "ident \<rightharpoonup> Wallet"
  escrowAccounts :: "EscrowAccount list"
  escrowTransactions :: "EscrowTransaction list"
  walletTransactions :: "WalletTransaction list"
  milestones :: "Milestone list"

section \<open>Errors and the transactional store interface\<close>

text \<open>
  One constructor per throw site. The ledger services throw plain \<open>Error\<close>s, named
  here after their message; the contract service throws \<open>DomainError\<close>s, named after
  their code. \<open>RecordNotFound\<close> and \<open>UniqueConstraintFailed\<close> are what the Prisma client
  raises when \<open>update\<close>/\<open>delete\<close> finds no row, or \<open>create\<close> repeats a primary key;
  \<open>IntegerOutOfRange\<close> is the store's error for a value that does not fit an INTEGER
  column; \<open>TypeError\<close> is the JavaScript error of calling a property that is not a
  function.
\<close>

datatype error =
    AmountNotPositive
  | ContractNotFound
  | EscrowNotInitialized
  | Unauthorized
  | InsufficientAvailableBalance
  | InsufficientEscrowFunds
  | InsufficientPendingBalance
  | FreelancerWalletNotFoundOrInactive
  | RecordNotFound
  | UniqueConstraintFailed
  | IntegerOutOfRange
  | TypeError
  | MILESTONE_NOT_FOUND
  | CONTRACT_NOT_FOUND
  | CONTRACT_INACTIVE
  | USER_NOT_AUTHORIZED
  | CLIENT_ONLY_ACTION
  | FREELANCER_ONLY_ACTION
  | INVALID_MILESTONE_STATUS_TRANSITION MilestoneStatus MilestoneStatus
  | INVALID_CONTRACT_STATUS_TRANSITION
  | INVALID_MILESTONE_UPDATE
  | NO_DELETION_REQUEST
  | INVALID_AMOUNT
  | INVALID_DUE_DATE

text \<open>
  An operation takes the store and returns its outcome together with the store it
  leaves behind. Inside a transaction body the returned store holds the writes made so
  far, also when the body throws; \<open>transaction\<close> is \<open>prisma.$transaction\<close>: it commits
  the body's writes when the body returns and discards them when it throws.
\<close>

type_synonym 'a tx = "store \<Rightarrow> (error + 'a) \<times> store"

definition ret :: "'a \<Rightarrow> 'a tx" where
  "ret x s = (Inr x, s)"

definition throw :: "error \<Rightarrow> 'a tx" where
  "throw e s = (Inl e, s)"

definition bindTx :: "'a tx \<Rightarrow> ('a \<Rightarrow> 'b tx) \<Rightarrow> 'b tx" where
  "bindTx m f s = (case m s of (Inl e, s') \<Rightarrow> (Inl e, s') | (Inr x, s') \<Rightarrow> f x s')"

definition transaction :: "'a tx \<Rightarrow> 'a tx" where
  "transaction body s = (case body s of (Inl e, s') \<Rightarrow> (Inl e, s) | (Inr x, s') \<Rightarrow> (Inr x, s'))"

text \<open>
  The range of an INTEGER column, and rows whose INTEGER columns are in range. The
  database refuses a write (\<open>integer out of range\<close>) that would store a value outside
  it: \<open>update\<close>, \<open>updateMany\<close> and \<open>create\<close> below fail with \<open>IntegerOutOfRange\<close> and
  write nothing when the row they would store does not fit. The rows a database holds
  do fit, so that for them the test is the one on the column that is incremented or
  decremented.
\<close>

definition int32 :: "int \<Rightarrow> bool" where
  "int32 x \<longleftrightarrow> - 2147483648 \<le> x \<and> x \<le> 2147483647"

definition walletFits :: "Wallet \<Rightarrow> bool" where
  "walletFits w \<longleftrightarrow> int32 (availableBalance w) \<and> int32 (pendingBalance w)"

definition escrowFits :: "EscrowAccount \<Rightarrow> bool" where
  "escrowFits a \<longleftrightarrow> int32 (heldAmount a) \<and> int32 (initialAmount a)"

definition wallet_findUnique :: "ident \<Rightarrow> (Wallet option) tx" where
  "wallet_findUnique userId s = (Inr (wallets s userId), s)"

definition wallet_update :: "ident \<Rightarrow> (Wallet \<Rightarrow> Wallet) \<Rightarrow> Wallet tx" where
  "wallet_update userId f s =
     (case wallets s userId of
        None \<Rightarrow> (Inl RecordNotFound, s)
      | Some w \<Rightarrow>
          if walletFits (f w) then (Inr (f w), s\<lparr>wallets := (wallets s)(userId \<mapsto> f w)\<rparr>)
          else (Inl IntegerOutOfRange, s))"

text \<open>
  \<open>wallet.updateMany\<close> filtered on the wallet's \<open>userId\<close> and on its user row; it returns
  the number of rows it changed (at most one, \<open>userId\<close> being unique).
\<close>

definition wallet_updateMany :: "ident \<Rightarrow> (User \<Rightarrow> bool) \<Rightarrow> (Wallet \<Rightarrow> Wallet) \<Rightarrow> nat tx" where
  "wallet_updateMany userId userFilter f s =
     (case wallets s userId of
        None \<Rightarrow> (Inr 0, s)
      | Some w \<Rightarrow>
          (case users s userId of
             None \<Rightarrow> (Inr 0, s)
           | Some u \<Rightarrow>
               if userFilter u then
                 (if walletFits (f w) then (Inr 1, s\<lparr>wallets := (wallets s)(userId \<mapsto> f w)\<rparr>)
                  else (Inl IntegerOutOfRange, s))
               else (Inr 0, s)))"

definition walletTransaction_create :: "WalletTransaction \<Rightarrow> unit tx" where
  "walletTransaction_create row s =
     (if int32 (wt_amount row) then (Inr (), s\<lparr>walletTransactions := walletTransactions s @ [row]\<rparr>)
      else (Inl IntegerOutOfRange, s))"

definition escrowAccount_findUnique :: "ident \<Rightarrow> (EscrowAccount option) tx" where
  "escrowAccount_findUnique aid s = (Inr (find (\<lambda>a. ea_id a = aid) (escrowAccounts s)), s)"

definition escrowAccount_update :: "ident \<Rightarrow> (EscrowAccount \<Rightarrow> EscrowAccount) \<Rightarrow> unit tx" where
  "escrowAccount_update aid f s =
     (case find (\<lambda>a. ea_id a = aid) (escrowAccounts s) of
        None \<Rightarrow> (Inl RecordNotFound, s)
      | Some _ \<Rightarrow>
          if list_all (\<lambda>a. escrowFits (f a)) (filter (\<lambda>a. ea_id a = aid) (escrowAccounts s)) then
            (Inr (), s\<lparr>escrowAccounts := map (\<lambda>a. if ea_id a = aid then f a else a) (escrowAccounts s)\<rparr>)
          else (Inl IntegerOutOfRange, s))"

definition escrowTransaction_create :: "EscrowTransaction \<Rightarrow> unit tx" where
  "escrowTransaction_create row s =
     (if int32 (et_amount row) then (Inr (), s\<lparr>escrowTransactions := escrowTransactions s @ [row]\<rparr>)
      else (Inl IntegerOutOfRange, s))"

section \<open>WalletService\<close>

text \<open>
  \<open>updatePendingBalance(tx, userId, amount)\<close> runs inside the caller's transaction. A
  non-positive amount returns at once, without an error.
\<close>

definition updatePendingBalance :: "ident \<Rightarrow> int \<Rightarrow> unit tx" where
  "updatePendingBalance userId amount =
     (if amount \<le> 0 then ret ()
      else
        bindTx (wallet_updateMany userId
                  (\<lambda>u. u_role u = FREELANCER \<and> u_status u = U_ACTIVE)
                  (\<lambda>w. w\<lparr>pendingBalance := pendingBalance w + amount\<rparr>)) (\<lambda>count.
        if count = 0 then throw FreelancerWalletNotFoundOrInactive
        else
          bindTx (wallet_findUnique userId) (\<lambda>wallet.
          case wallet of
            None \<Rightarrow> ret ()
          | Some w \<Rightarrow>
              walletTransaction_create
                \<lparr>wt_walletId = w_id w, wt_amount = amount, wt_type = T_RELEASE,
                 wt_relatedId = None, wt_metadata = ''Milestone Completion (Pending)''\<rparr>)))"

definition movePendingToAvailable_body :: "ident \<Rightarrow> int \<Rightarrow> unit tx" where
  "movePendingToAvailable_body userId amount =
     bindTx (wallet_findUnique userId) (\<lambda>walletCheck.
     case walletCheck of
       None \<Rightarrow> throw InsufficientPendingBalance
     | Some wc \<Rightarrow>
         if pendingBalance wc < amount then throw InsufficientPendingBalance
         else
           bindTx (wallet_update userId
                     (\<lambda>w. w\<lparr>pendingBalance := pendingBalance w - amount,
                            availableBalance := availableBalance w + amount\<rparr>)) (\<lambda>updatedWallet.
           walletTransaction_create
             \<lparr>wt_walletId = w_id updatedWallet, wt_amount = amount, wt_type = T_ADJUSTMENT,
              wt_relatedId = None, wt_metadata = ''Pending to Available Move''\<rparr>))"

definition movePendingToAvailable :: "ident \<Rightarrow> int \<Rightarrow> unit tx" where
  "movePendingToAvailable userId amount =
     (if amount \<le> 0 then ret ()
      else transaction (movePendingToAvailable_body userId amount))"

definition processPayoutDeduction_body :: "ident \<Rightarrow> int \<Rightarrow> ident \<Rightarrow> unit tx" where
  "processPayoutDeduction_body userId amount withdrawalId =
     bindTx (wallet_findUnique userId) (\<lambda>walletCheck.
     case walletCheck of
       None \<Rightarrow> throw InsufficientAvailableBalance
     | Some wc \<Rightarrow>
         if availableBalance wc < amount then throw InsufficientAvailableBalance
         else
           bindTx (wallet_update userId
                     (\<lambda>w. w\<lparr>availableBalance := availableBalance w - amount\<rparr>)) (\<lambda>updatedWallet.
           walletTransaction_create
             \<lparr>wt_walletId = w_id updatedWallet, wt_amount = amount, wt_type = T_WITHDRAWAL,
              wt_relatedId = Some withdrawalId, wt_metadata = ''Payout Deduction''\<rparr>))"

definition processPayoutDeduction :: "ident \<Rightarrow> int \<Rightarrow> ident \<Rightarrow> unit tx" where
  "processPayoutDeduction userId amount withdrawalId =
     (if amount \<le> 0 then ret ()
      else transaction (processPayoutDeduction_body userId amount withdrawalId))"

section \<open>EscrowService\<close>

text \<open>
  \<open>_getContractWithEscrow\<close>: the contract by id, with the escrow account whose
  \<open>contract_id\<close> is the contract's id. It reads outside any transaction and writes nothing.
\<close>

definition getContractWithEscrow :: "ident \<Rightarrow> store \<Rightarrow> error + (Contract \<times> EscrowAccount)" where
  "getContractWithEscrow contractId s =
     (case contracts s contractId of
        None \<Rightarrow> Inl ContractNotFound
      | Some contract \<Rightarrow>
          (case find (\<lambda>a. ea_contractId a = contractId) (escrowAccounts s) of
             None \<Rightarrow> Inl EscrowNotInitialized
           | Some escrow \<Rightarrow> Inr (contract, escrow)))"

definition depositFunds_body :: "ident \<Rightarrow> ident \<Rightarrow> int \<Rightarrow> EscrowAccount \<Rightarrow> unit tx" where
  "depositFunds_body userId contractId amount escrowAccount =
     bindTx (wallet_findUnique userId) (\<lambda>clientWallet.
     case clientWallet of
       None \<Rightarrow> throw InsufficientAvailableBalance
     | Some cw \<Rightarrow>
         if availableBalance cw < amount then throw InsufficientAvailableBalance
         else
           bindTx (wallet_update userId
                     (\<lambda>w. w\<lparr>availableBalance := availableBalance w - amount\<rparr>)) (\<lambda>_.
           bindTx (escrowAccount_update (ea_id escrowAccount)
                     (\<lambda>a. a\<lparr>heldAmount := heldAmount a + amount\<rparr>)) (\<lambda>_.
           bindTx (escrowTransaction_create
                     \<lparr>et_escrowAccountId = ea_id escrowAccount, et_amount = amount,
                      et_type = E_DEPOSIT, et_sourceWalletId = Some (w_id cw),
                      et_destinationWalletId = None,
                      et_description = ''Deposit for contract '' @ contractId\<rparr>) (\<lambda>_.
           walletTransaction_create
             \<lparr>wt_walletId = w_id cw, wt_amount = amount, wt_type = T_HOLD,
              wt_relatedId = Some contractId,
              wt_metadata = ''Escrow Deposit for Contract '' @ contractId\<rparr>))))"

definition depositFunds :: "ident \<Rightarrow> ident \<Rightarrow> int \<Rightarrow> unit tx" where
  "depositFunds userId contractId amount s =
     (if amount \<le> 0 then (Inl AmountNotPositive, s)
      else
        case getContractWithEscrow contractId s of
          Inl e \<Rightarrow> (Inl e, s)
        | Inr (contract, escrowAccount) \<Rightarrow>
            if c_clientId contract \<noteq> userId then (Inl Unauthorized, s)
            else transaction (depositFunds_body userId contractId amount escrowAccount) s)"

definition releaseFunds_body :: "ident \<Rightarrow> int \<Rightarrow> Contract \<Rightarrow> EscrowAccount \<Rightarrow> unit tx" where
  "releaseFunds_body contractId amount contract escrowAccount =
     bindTx (escrowAccount_findUnique (ea_id escrowAccount)) (\<lambda>currentEscrow.
     case currentEscrow of
       None \<Rightarrow> throw InsufficientEscrowFunds
     | Some ce \<Rightarrow>
         if heldAmount ce < amount then throw InsufficientEscrowFunds
         else
           bindTx (escrowAccount_update (ea_id escrowAccount)
                     (\<lambda>a. a\<lparr>heldAmount := heldAmount a - amount\<rparr>)) (\<lambda>_.
           bindTx (updatePendingBalance (c_freelancerId contract) amount) (\<lambda>_.
           bindTx (wallet_findUnique (c_freelancerId contract)) (\<lambda>freelancerWallet.
           case freelancerWallet of
             None \<Rightarrow> ret ()
           | Some fw \<Rightarrow>
               escrowTransaction_create
                 \<lparr>et_escrowAccountId = ea_id escrowAccount, et_amount = amount,
                  et_type = E_RELEASE, et_sourceWalletId = None,
                  et_destinationWalletId = Some (w_id fw),
                  et_description =
                    ''Funds released for Contract '' @ contractId @ '' milestone''\<rparr>))))"

definition releaseFunds :: "ident \<Rightarrow> ident \<Rightarrow> int \<Rightarrow> unit tx" where
  "releaseFunds userId contractId amount s =
     (if amount \<le> 0 then (Inl AmountNotPositive, s)
      else
        case getContractWithEscrow contractId s of
          Inl e \<Rightarrow> (Inl e, s)
        | Inr (contract, escrowAccount) \<Rightarrow>
            if c_clientId contract \<noteq> userId then (Inl Unauthorized, s)
            else transaction (releaseFunds_body contractId amount contract escrowAccount) s)"

definition refundFunds_body :: "ident \<Rightarrow> int \<Rightarrow> bool \<Rightarrow> Contract \<Rightarrow> EscrowAccount \<Rightarrow> unit tx" where
  "refundFunds_body contractId amount isSystemRefund contract escrowAccount =
     bindTx (escrowAccount_findUnique (ea_id escrowAccount)) (\<lambda>currentEscrow.
     case currentEscrow of
       None \<Rightarrow> throw InsufficientEscrowFunds
     | Some ce \<Rightarrow>
         if heldAmount ce < amount then throw InsufficientEscrowFunds
         else
           bindTx (escrowAccount_update (ea_id escrowAccount)
                     (\<lambda>a. a\<lparr>heldAmount := heldAmount a - amount\<rparr>)) (\<lambda>_.
           bindTx (wallet_update (c_clientId contract)
                     (\<lambda>w. w\<lparr>availableBalance := availableBalance w + amount\<rparr>)) (\<lambda>clientWallet.
           bindTx (escrowTransaction_create
                     \<lparr>et_escrowAccountId = ea_id escrowAccount, et_amount = amount,
                      et_type = E_REFUND, et_sourceWalletId = None,
                      et_destinationWalletId = Some (w_id clientWallet),
                      et_description =
                        ''Refund for contract '' @ contractId @ '' (System: ''
                          @ (if isSystemRefund then ''true'' else ''false'') @ '')''\<rparr>) (\<lambda>_.
           walletTransaction_create
             \<lparr>wt_walletId = w_id clientWallet, wt_amount = amount, wt_type = T_ADJUSTMENT,
              wt_relatedId = Some contractId,
              wt_metadata = ''Escrow Refund from Contract '' @ contractId\<rparr>))))"

definition refundFunds :: "ident \<Rightarrow> int \<Rightarrow> bool \<Rightarrow> unit tx" where
  "refundFunds contractId amount isSystemRefund s =
     (if amount \<le> 0 then (Inl AmountNotPositive, s)
      else
        case getContractWithEscrow contractId s of
          Inl e \<Rightarrow> (Inl e, s)
        | Inr (contract, escrowAccount) \<Rightarrow>
            transaction (refundFunds_body contractId amount isSystemRefund contract escrowAccount) s)"

section \<open>Ledger reconciliation\<close>

text \<open>
  \<open>sumOfType t aid txs\<close> is the sum of the amounts of the transactions of type \<open>t\<close>
  recorded for the escrow account \<open>aid\<close>. An account is reconciled with a log when its
  held amount is its initial amount plus the deposits minus the releases minus the refunds
  of the log, and is not negative.
\<close>

definition sumOfType :: "EscrowTransactionType \<Rightarrow> ident \<Rightarrow> EscrowTransaction list \<Rightarrow> int" where
  "sumOfType t aid txs =
     sum_list (map et_amount (filter (\<lambda>x. et_escrowAccountId x = aid \<and> et_type x = t) txs))"

definition reconciled :: "EscrowTransaction list \<Rightarrow> EscrowAccount \<Rightarrow> bool" where
  "reconciled txs a \<longleftrightarrow>
     heldAmount a = initialAmount a + sumOfType E_DEPOSIT (ea_id a) txs
                      - sumOfType E_RELEASE (ea_id a) txs - sumOfType E_REFUND (ea_id a) txs
     \<and> 0 \<le> heldAmount a"

text \<open>The invariant of the escrow tables: ids are a key and every account is reconciled.\<close>

definition ledgerInv :: "store \<Rightarrow> bool" where
  "ledgerInv s \<longleftrightarrow> distinct (map ea_id (escrowAccounts s)) \<and>
     (\<forall>a\<in>set (escrowAccounts s). reconciled (escrowTransactions s) a)"

text \<open>Calls of the three escrow operations, and the store a list of calls leaves behind.\<close>

datatype escrowCall =
    DepositFunds ident ident int
  | ReleaseFunds ident ident int
  | RefundFunds ident int bool

fun runCall :: "escrowCall \<Rightarrow> unit tx" where
  "runCall (DepositFunds userId contractId amount) = depositFunds userId contractId amount"
| "runCall (ReleaseFunds userId contractId amount) = releaseFunds userId contractId amount"
| "runCall (RefundFunds contractId amount isSystemRefund) = refundFunds contractId amount isSystemRefund"

fun runCalls :: "escrowCall list \<Rightarrow> store \<Rightarrow> store" where
  "runCalls [] s = s"
| "runCalls (c # cs) s = runCalls cs (snd (runCall c s))"

section \<open>ContractService\<close>

fun VALID_TRANSITIONS :: "ContractStatus \<Rightarrow> ContractStatus list" where
  "VALID_TRANSITIONS C_PENDING = [C_ACTIVE, C_TERMINATED]"
| "VALID_TRANSITIONS C_ACTIVE = [C_REVIEW_PENDING, C_TERMINATED]"
| "VALID_TRANSITIONS C_REVIEW_PENDING = [C_COMPLETED, C_DISPUTED, C_TERMINATED]"
| "VALID_TRANSITIONS C_COMPLETED = []"
| "VALID_TRANSITIONS C_DISPUTED = [C_TERMINATED]"
| "VALID_TRANSITIONS C_TERMINATED = []"

definition check :: "error + 'a \<Rightarrow> 'a tx" where
  "check r s = (r, s)"

definition getContractById :: "ident \<Rightarrow> (Contract option) tx" where
  "getContractById contractId s = (Inr (contracts s contractId), s)"

definition ContractService_validateContractExists :: "ident \<Rightarrow> Contract tx" where
  "ContractService_validateContractExists contractId =
     bindTx (getContractById contractId) (\<lambda>contract.
     case contract of
       None \<Rightarrow> throw CONTRACT_NOT_FOUND
     | Some c \<Rightarrow> ret c)"

definition ContractService_validateStatusTransition ::
  "ContractStatus \<Rightarrow> ContractStatus \<Rightarrow> error + unit" where
  "ContractService_validateStatusTransition from to =
     (if to \<in> set (VALID_TRANSITIONS from) then Inr ()
      else Inl INVALID_CONTRACT_STATUS_TRANSITION)"

definition contract_update :: "ident \<Rightarrow> (Contract \<Rightarrow> Contract) \<Rightarrow> Contract tx" where
  "contract_update contractId f s =
     (case contracts s contractId of
        None \<Rightarrow> (Inl RecordNotFound, s)
      | Some c \<Rightarrow> (Inr (f c), s\<lparr>contracts := (contracts s)(contractId \<mapsto> f c)\<rparr>))"

definition startContract :: "nat \<Rightarrow> ident \<Rightarrow> Contract tx" where
  "startContract now contractId =
     bindTx (ContractService_validateContractExists contractId) (\<lambda>contract.
     bindTx (check (ContractService_validateStatusTransition (c_status contract) C_ACTIVE)) (\<lambda>_.
     contract_update contractId (\<lambda>c. c\<lparr>c_status := C_ACTIVE, c_startDate := now\<rparr>)))"

definition submitWork :: "nat \<Rightarrow> ident \<Rightarrow> Contract tx" where
  "submitWork now contractId =
     bindTx (ContractService_validateContractExists contractId) (\<lambda>contract.
     bindTx (check (ContractService_validateStatusTransition (c_status contract) C_REVIEW_PENDING)) (\<lambda>_.
     contract_update contractId (\<lambda>c. c\<lparr>c_status := C_REVIEW_PENDING, c_submittedAt := Some now\<rparr>)))"

definition completeContract :: "nat \<Rightarrow> ident \<Rightarrow> Contract tx" where
  "completeContract now contractId =
     bindTx (ContractService_validateContractExists contractId) (\<lambda>contract.
     bindTx (check (ContractService_validateStatusTransition (c_status contract) C_COMPLETED)) (\<lambda>_.
     contract_update contractId (\<lambda>c. c\<lparr>c_status := C_COMPLETED, c_endDate := Some now\<rparr>)))"

definition disputeContract :: "ident \<Rightarrow> Contract tx" where
  "disputeContract contractId =
     bindTx (ContractService_validateContractExists contractId) (\<lambda>contract.
     bindTx (check (ContractService_validateStatusTransition (c_status contract) C_DISPUTED)) (\<lambda>_.
     contract_update contractId (\<lambda>c. c\<lparr>c_status := C_DISPUTED\<rparr>)))"

definition terminateContract :: "nat \<Rightarrow> ident \<Rightarrow> Contract tx" where
  "terminateContract now contractId =
     bindTx (ContractService_validateContractExists contractId) (\<lambda>contract.
     bindTx (check (ContractService_validateStatusTransition (c_status contract) C_TERMINATED)) (\<lambda>_.
     contract_update contractId (\<lambda>c. c\<lparr>c_status := C_TERMINATED, c_endDate := Some now\<rparr>)))"

text \<open>The five status-changing operations, each with the status it asks for.\<close>

datatype contractOp = StartContract | SubmitWork | CompleteContract | DisputeContract | TerminateContract

fun contractOpTarget :: "contractOp \<Rightarrow> ContractStatus" where
  "contractOpTarget StartContract = C_ACTIVE"
| "contractOpTarget SubmitWork = C_REVIEW_PENDING"
| "contractOpTarget CompleteContract = C_COMPLETED"
| "contractOpTarget DisputeContract = C_DISPUTED"
| "contractOpTarget TerminateContract = C_TERMINATED"

fun runContractOp :: "contractOp \<Rightarrow> nat \<Rightarrow> ident \<Rightarrow> Contract tx" where
  "runContractOp StartContract now contractId = startContract now contractId"
| "runContractOp SubmitWork now contractId = submitWork now contractId"
| "runContractOp CompleteContract now contractId = completeContract now contractId"
| "runContractOp DisputeContract now contractId = disputeContract contractId"
| "runContractOp TerminateContract now contractId = terminateContract now contractId"

section \<open>ContractValidator and MilestoneValidator\<close>

definition ContractValidator_validateContractExists :: "Contract option \<Rightarrow> error + unit" where
  "ContractValidator_validateContractExists contract =
     (case contract of None \<Rightarrow> Inl CONTRACT_NOT_FOUND | Some _ \<Rightarrow> Inr ())"

definition validateContractStatus :: "Contract \<Rightarrow> error + unit" where
  "validateContractStatus contract =
     (if c_status contract \<noteq> C_ACTIVE \<and> c_status contract \<noteq> C_PENDING then Inl CONTRACT_INACTIVE
      else Inr ())"

definition validateUserAccess :: "Contract \<Rightarrow> ident \<Rightarrow> error + unit" where
  "validateUserAccess contract userId =
     (let isUserPartOfContract = (c_clientId contract = userId \<or> c_freelancerId contract = userId)
      in if \<not> isUserPartOfContract then Inl USER_NOT_AUTHORIZED else Inr ())"

definition validateClientOnly :: "Contract \<Rightarrow> ident \<Rightarrow> error + unit" where
  "validateClientOnly contract userId =
     (if c_clientId contract \<noteq> userId then Inl CLIENT_ONLY_ACTION else Inr ())"

definition validateFreelancerOnly :: "Contract \<Rightarrow> ident \<Rightarrow> error + unit" where
  "validateFreelancerOnly contract userId =
     (if c_freelancerId contract \<noteq> userId then Inl FREELANCER_ONLY_ACTION else Inr ())"

record MilestoneDTO =
  dto_contractId :: ident
  dto_title :: string
  dto_description :: "string option"
  dto_amount :: int
  dto_dueDate :: nat

text \<open>\<open>Partial<MilestoneDTO>\<close>: \<open>None\<close> is a field left \<open>undefined\<close>.\<close>

record PartialMilestoneDTO =
  pd_title :: "string option"
  pd_description :: "string option"
  pd_amount :: "int option"
  pd_dueDate :: "nat option"

definition validateMilestoneData :: "nat \<Rightarrow> MilestoneDTO \<Rightarrow> error + unit" where
  "validateMilestoneData now data =
     (if dto_amount data \<le> 0 then Inl INVALID_AMOUNT
      else if dto_dueDate data < now then Inl INVALID_DUE_DATE
      else Inr ())"

definition validatePartialMilestoneData :: "nat \<Rightarrow> PartialMilestoneDTO \<Rightarrow> error + unit" where
  "validatePartialMilestoneData now data =
     (if (case pd_amount data of None \<Rightarrow> False | Some a \<Rightarrow> a \<le> 0) then Inl INVALID_AMOUNT
      else if (case pd_dueDate data of None \<Rightarrow> False | Some d \<Rightarrow> d < now) then Inl INVALID_DUE_DATE
      else Inr ())"

section \<open>MilestoneService\<close>

fun VALID_STATUS_TRANSITIONS :: "MilestoneStatus \<Rightarrow> MilestoneStatus list" where
  "VALID_STATUS_TRANSITIONS M_PENDING = [M_IN_PROGRESS, M_CANCELED]"
| "VALID_STATUS_TRANSITIONS M_IN_PROGRESS = [M_SUBMITTED, M_CANCELED]"
| "VALID_STATUS_TRANSITIONS M_SUBMITTED = [M_APPROVED, M_REJECTED, M_DISPUTED]"
| "VALID_STATUS_TRANSITIONS M_APPROVED = [M_PAID, M_DISPUTED]"
| "VALID_STATUS_TRANSITIONS M_PAID = [M_COMPLETED]"
| "VALID_STATUS_TRANSITIONS M_DISPUTED = [M_APPROVED, M_REJECTED]"
| "VALID_STATUS_TRANSITIONS M_CANCELED = []"
| "VALID_STATUS_TRANSITIONS M_COMPLETED = []"
| "VALID_STATUS_TRANSITIONS M_REJECTED = [M_IN_PROGRESS, M_CANCELED]"

text \<open>The milestone table, as the Prisma client reaches it.\<close>

definition milestone_findUnique :: "ident \<Rightarrow> (Milestone option) tx" where
  "milestone_findUnique milestoneId s = (Inr (find (\<lambda>m. m_id m = milestoneId) (milestones s)), s)"

definition milestone_count :: "ident \<Rightarrow> nat tx" where
  "milestone_count contractId s =
     (Inr (length (filter (\<lambda>m. m_contractId m = contractId) (milestones s))), s)"

definition milestone_findMany :: "ident \<Rightarrow> (Milestone list) tx" where
  "milestone_findMany contractId s =
     (Inr (sort_key m_sequence (filter (\<lambda>m. m_contractId m = contractId) (milestones s))), s)"

definition milestone_create :: "Milestone \<Rightarrow> Milestone tx" where
  "milestone_create row s =
     (case find (\<lambda>m. m_id m = m_id row) (milestones s) of
        Some _ \<Rightarrow> (Inl UniqueConstraintFailed, s)
      | None \<Rightarrow>
          if int32 (m_sequence row) then (Inr row, s\<lparr>milestones := milestones s @ [row]\<rparr>)
          else (Inl IntegerOutOfRange, s))"

definition milestone_update :: "ident \<Rightarrow> (Milestone \<Rightarrow> Milestone) \<Rightarrow> Milestone tx" where
  "milestone_update milestoneId f s =
     (case find (\<lambda>m. m_id m = milestoneId) (milestones s) of
        None \<Rightarrow> (Inl RecordNotFound, s)
      | Some m \<Rightarrow>
          (Inr (f m),
           s\<lparr>milestones := map (\<lambda>x. if m_id x = milestoneId then f x else x) (milestones s)\<rparr>))"

definition milestone_delete :: "ident \<Rightarrow> Milestone tx" where
  "milestone_delete milestoneId s =
     (case find (\<lambda>m. m_id m = milestoneId) (milestones s) of
        None \<Rightarrow> (Inl RecordNotFound, s)
      | Some m \<Rightarrow> (Inr m, s\<lparr>milestones := filter (\<lambda>x. m_id x \<noteq> milestoneId) (milestones s)\<rparr>))"

definition getMilestone :: "ident \<Rightarrow> Milestone tx" where
  "getMilestone milestoneId =
     bindTx (milestone_findUnique milestoneId) (\<lambda>milestone.
     case milestone of
       None \<Rightarrow> throw MILESTONE_NOT_FOUND
     | Some m \<Rightarrow> ret m)"

text \<open>
  \<open>getAndValidateContract\<close>. After \<open>validateContractExists\<close> the source reads the
  contract through a non-null assertion (\<open>contract!\<close>); the \<open>None\<close> branch below is that
  assertion and is never reached, \<open>validateContractExists\<close> having thrown already.
\<close>

definition getAndValidateContract :: "ident \<Rightarrow> ident \<Rightarrow> Contract tx" where
  "getAndValidateContract contractId userId =
     bindTx (getContractById contractId) (\<lambda>contract.
     bindTx (check (ContractValidator_validateContractExists contract)) (\<lambda>_.
     case contract of
       None \<Rightarrow> throw CONTRACT_NOT_FOUND
     | Some c \<Rightarrow>
         bindTx (check (validateContractStatus c)) (\<lambda>_.
         bindTx (check (validateUserAccess c userId)) (\<lambda>_.
         ret c))))"

definition validateAndGetContext :: "ident \<Rightarrow> ident \<Rightarrow> (Milestone \<times> Contract) tx" where
  "validateAndGetContext milestoneId userId =
     bindTx (getMilestone milestoneId) (\<lambda>milestone.
     bindTx (getAndValidateContract (m_contractId milestone) userId) (\<lambda>contract.
     ret (milestone, contract)))"

text \<open>
  \<open>validateStatusTransition\<close> of the milestone service. \<open>bypassAdmin\<close> is the instance
  field set by the constructor (its \<open>isAdmin\<close> argument or the environment variable
  \<open>BYPASS_ADMIN_VALIDATIONS\<close>); it is passed to every operation that reads it.
\<close>

definition MilestoneService_validateStatusTransition ::
  "bool \<Rightarrow> MilestoneStatus \<Rightarrow> MilestoneStatus \<Rightarrow> error + unit" where
  "MilestoneService_validateStatusTransition bypassAdmin from to =
     (let validateNextStatuses = VALID_STATUS_TRANSITIONS from
      in if bypassAdmin then Inr ()
         else if to \<notin> set validateNextStatuses then Inl (INVALID_MILESTONE_STATUS_TRANSITION from to)
         else Inr ())"

text \<open>
  \<open>withMilestoneContext\<close> takes its role as one of the strings \<open>"CLIENT"\<close> and
  \<open>"FREELANCER"\<close> and calls the member of the class \<open>ContractValidator\<close> whose name is
  \<open>validate\<close>, the role as it is written, \<open>Only\<close>. \<open>ContractValidator_member\<close> is the
  computed member access: the five static methods the class defines, under the names it
  gives them, each taking the contract and the user id (a method with fewer parameters
  ignores the rest). The members a class inherits from \<open>Function\<close> are left out: none has
  a name of that form. For a name that is not defined the access gives \<open>undefined\<close>, and
  calling it throws a \<open>TypeError\<close>.
\<close>

datatype ContextRole = ROLE_CLIENT | ROLE_FREELANCER

fun roleName :: "ContextRole \<Rightarrow> string" where
  "roleName ROLE_CLIENT = ''CLIENT''"
| "roleName ROLE_FREELANCER = ''FREELANCER''"

definition ContractValidator_member :: "string \<Rightarrow> (Contract \<Rightarrow> ident \<Rightarrow> error + unit) option" where
  "ContractValidator_member name =
     (if name = ''validateContractExists'' then
        Some (\<lambda>contract userId. ContractValidator_validateContractExists (Some contract))
      else if name = ''validateContractStatus'' then
        Some (\<lambda>contract userId. validateContractStatus contract)
      else if name = ''validateUserAccess'' then Some validateUserAccess
      else if name = ''validateClientOnly'' then Some validateClientOnly
      else if name = ''validateFreelancerOnly'' then Some validateFreelancerOnly
      else None)"

definition validateRoleOnly :: "ContextRole \<Rightarrow> Contract \<Rightarrow> ident \<Rightarrow> error + unit" where
  "validateRoleOnly role contract userId =
     (case ContractValidator_member (''validate'' @ roleName role @ ''Only'') of
        None \<Rightarrow> Inl TypeError
      | Some validator \<Rightarrow> validator contract userId)"

definition withMilestoneContext ::
  "ident \<Rightarrow> ident \<Rightarrow> ContextRole \<Rightarrow> (Milestone \<Rightarrow> Contract \<Rightarrow> 'a tx) \<Rightarrow> 'a tx" where
  "withMilestoneContext milestoneId userId role callback =
     bindTx (validateAndGetContext milestoneId userId) (\<lambda>(milestone, contract).
     bindTx (check (validateRoleOnly role contract userId)) (\<lambda>_.
     callback milestone contract))"

text \<open>
  \<open>createMilestone\<close>. The row's \<open>id\<close> is generated by the store; it is the argument
  \<open>newId\<close>, and a repeated primary key is refused. \<open>status\<close> takes its column default.
\<close>

definition createMilestone :: "ident \<Rightarrow> nat \<Rightarrow> MilestoneDTO \<Rightarrow> ident \<Rightarrow> Milestone tx" where
  "createMilestone newId now data userId =
     bindTx (getAndValidateContract (dto_contractId data) userId) (\<lambda>_.
     bindTx (getAndValidateContract (dto_contractId data) userId) (\<lambda>contract.
     bindTx (check (validateClientOnly contract userId)) (\<lambda>_.
     bindTx (check (validateMilestoneData now data)) (\<lambda>_.
     transaction
       (bindTx (milestone_count (dto_contractId data)) (\<lambda>count.
        milestone_create
          \<lparr>m_id = newId, m_contractId = dto_contractId data, m_sequence = int count + 1,
           m_title = dto_title data, m_description = dto_description data,
           m_amount = dto_amount data, m_status = M_PENDING,
           m_dueDate = Some (dto_dueDate data), m_approvedAt = None, m_submittedAt = None,
           m_disputedAt = None, m_deletionRequestedAt = None\<rparr>))))))"

definition getMilestones :: "ident \<Rightarrow> ident \<Rightarrow> (Milestone list) tx" where
  "getMilestones contractId userId =
     withMilestoneContext contractId userId ROLE_CLIENT
       (\<lambda>milestone contract. milestone_findMany contractId)"

definition getMilestoneById :: "ident \<Rightarrow> (Milestone option) tx" where
  "getMilestoneById milestoneId = milestone_findUnique milestoneId"

definition updateMilestone :: "nat \<Rightarrow> ident \<Rightarrow> ident \<Rightarrow> PartialMilestoneDTO \<Rightarrow> Milestone tx" where
  "updateMilestone now milestoneId userId data =
     withMilestoneContext milestoneId userId ROLE_CLIENT
       (\<lambda>milestone contract.
          bindTx (check (validatePartialMilestoneData now data)) (\<lambda>_.
          if m_status milestone \<noteq> M_PENDING then throw INVALID_MILESTONE_UPDATE
          else
            milestone_update milestoneId
              (\<lambda>m. m\<lparr>m_title := (case pd_title data of None \<Rightarrow> m_title m | Some t \<Rightarrow> t),
                     m_description :=
                       (case pd_description data of None \<Rightarrow> m_description m | Some d \<Rightarrow> Some d),
                     m_amount := (case pd_amount data of None \<Rightarrow> m_amount m | Some a \<Rightarrow> a),
                     m_dueDate :=
                       (case pd_dueDate data of None \<Rightarrow> m_dueDate m | Some d \<Rightarrow> Some d)\<rparr>)))"

definition markMilestoneAsApprovedByFreelancer :: "bool \<Rightarrow> nat \<Rightarrow> ident \<Rightarrow> ident \<Rightarrow> Milestone tx" where
  "markMilestoneAsApprovedByFreelancer bypassAdmin now milestoneId userId =
     withMilestoneContext milestoneId userId ROLE_FREELANCER
       (\<lambda>milestone contract.
          bindTx (check (MilestoneService_validateStatusTransition bypassAdmin
                           (m_status milestone) M_APPROVED)) (\<lambda>_.
          milestone_update milestoneId (\<lambda>m. m\<lparr>m_status := M_APPROVED, m_approvedAt := Some now\<rparr>)))"

definition rejectMilestone :: "bool \<Rightarrow> ident \<Rightarrow> ident \<Rightarrow> Milestone tx" where
  "rejectMilestone bypassAdmin milestoneId userId =
     withMilestoneContext milestoneId userId ROLE_FREELANCER
       (\<lambda>milestone contract.
          bindTx (check (MilestoneService_validateStatusTransition bypassAdmin
                           (m_status milestone) M_REJECTED)) (\<lambda>_.
          milestone_update milestoneId (\<lambda>m. m\<lparr>m_status := M_REJECTED\<rparr>)))"

definition submitMilestone :: "bool \<Rightarrow> nat \<Rightarrow> ident \<Rightarrow> ident \<Rightarrow> Milestone tx" where
  "submitMilestone bypassAdmin now milestoneId userId =
     withMilestoneContext milestoneId userId ROLE_FREELANCER
       (\<lambda>milestone contract.
          bindTx (check (MilestoneService_validateStatusTransition bypassAdmin
                           (m_status milestone) M_SUBMITTED)) (\<lambda>_.
          milestone_update milestoneId (\<lambda>m. m\<lparr>m_status := M_SUBMITTED, m_submittedAt := Some now\<rparr>)))"

definition disputeMilestone :: "bool \<Rightarrow> nat \<Rightarrow> ident \<Rightarrow> ident \<Rightarrow> Milestone tx" where
  "disputeMilestone bypassAdmin now milestoneId userId =
     withMilestoneContext milestoneId userId ROLE_CLIENT
       (\<lambda>milestone contract.
          bindTx (check (MilestoneService_validateStatusTransition bypassAdmin
                           (m_status milestone) M_DISPUTED)) (\<lambda>_.
          milestone_update milestoneId (\<lambda>m. m\<lparr>m_status := M_DISPUTED, m_disputedAt := Some now\<rparr>)))"

definition approveWorkByClient :: "bool \<Rightarrow> nat \<Rightarrow> ident \<Rightarrow> ident \<Rightarrow> Milestone tx" where
  "approveWorkByClient bypassAdmin now milestoneId userId =
     withMilestoneContext milestoneId userId ROLE_CLIENT
       (\<lambda>milestone contract.
          bindTx (check (MilestoneService_validateStatusTransition bypassAdmin
                           (m_status milestone) M_COMPLETED)) (\<lambda>_.
          milestone_update milestoneId (\<lambda>m. m\<lparr>m_status := M_COMPLETED, m_approvedAt := Some now\<rparr>)))"

definition requestDeletion :: "nat \<Rightarrow> ident \<Rightarrow> ident \<Rightarrow> Milestone tx" where
  "requestDeletion now milestoneId userId =
     withMilestoneContext milestoneId userId ROLE_CLIENT
       (\<lambda>milestone contract.
          milestone_update milestoneId (\<lambda>m. m\<lparr>m_deletionRequestedAt := Some now\<rparr>))"

definition acceptRequestDeletion :: "ident \<Rightarrow> ident \<Rightarrow> Milestone tx" where
  "acceptRequestDeletion milestoneId userId =
     withMilestoneContext milestoneId userId ROLE_FREELANCER
       (\<lambda>milestone contract.
          case m_deletionRequestedAt milestone of
            None \<Rightarrow> throw NO_DELETION_REQUEST
          | Some _ \<Rightarrow> milestone_delete milestoneId)"

text \<open>
  The five operations that change a milestone's status, each with the status it asks
  for and the party \<open>withMilestoneContext\<close> requires.
\<close>

datatype milestoneOp =
  ApproveByFreelancer | RejectMilestone | SubmitMilestone | DisputeMilestone | ApproveWorkByClient

fun milestoneOpTarget :: "milestoneOp \<Rightarrow> MilestoneStatus" where
  "milestoneOpTarget ApproveByFreelancer = M_APPROVED"
| "milestoneOpTarget RejectMilestone = M_REJECTED"
| "milestoneOpTarget SubmitMilestone = M_SUBMITTED"
| "milestoneOpTarget DisputeMilestone = M_DISPUTED"
| "milestoneOpTarget ApproveWorkByClient = M_COMPLETED"

fun milestoneOpRole :: "milestoneOp \<Rightarrow> ContextRole" where
  "milestoneOpRole ApproveByFreelancer = ROLE_FREELANCER"
| "milestoneOpRole RejectMilestone = ROLE_FREELANCER"
| "milestoneOpRole SubmitMilestone = ROLE_FREELANCER"
| "milestoneOpRole DisputeMilestone = ROLE_CLIENT"
| "milestoneOpRole ApproveWorkByClient = ROLE_CLIENT"

fun runMilestoneOp :: "milestoneOp \<Rightarrow> bool \<Rightarrow> nat \<Rightarrow> ident \<Rightarrow> ident \<Rightarrow> Milestone tx" where
  "runMilestoneOp ApproveByFreelancer bypassAdmin now milestoneId userId =
     markMilestoneAsApprovedByFreelancer bypassAdmin now milestoneId userId"
| "runMilestoneOp RejectMilestone bypassAdmin now milestoneId userId =
     rejectMilestone bypassAdmin milestoneId userId"
| "runMilestoneOp SubmitMilestone bypassAdmin now milestoneId userId =
     submitMilestone bypassAdmin now milestoneId userId"
| "runMilestoneOp DisputeMilestone bypassAdmin now milestoneId userId =
     disputeMilestone bypassAdmin now milestoneId userId"
| "runMilestoneOp ApproveWorkByClient bypassAdmin now milestoneId userId =
     approveWorkByClient bypassAdmin now milestoneId userId"

text \<open>
  Every operation of the milestone service as a call, the store a call leaves behind,
  and the store a list of calls leaves behind.
\<close>

datatype milestoneCall =
    CreateMilestone ident nat MilestoneDTO ident
  | GetMilestones ident ident
  | GetMilestoneById ident
  | UpdateMilestone nat ident ident PartialMilestoneDTO
  | StatusOp milestoneOp bool nat ident ident
  | RequestDeletion nat ident ident
  | AcceptRequestDeletion ident ident

fun runMilestoneCall :: "milestoneCall \<Rightarrow> store \<Rightarrow> store" where
  "runMilestoneCall (CreateMilestone newId now data userId) s =
     snd (createMilestone newId now data userId s)"
| "runMilestoneCall (GetMilestones contractId userId) s = snd (getMilestones contractId userId s)"
| "runMilestoneCall (GetMilestoneById milestoneId) s = snd (getMilestoneById milestoneId s)"
| "runMilestoneCall (UpdateMilestone now milestoneId userId data) s =
     snd (updateMilestone now milestoneId userId data s)"
| "runMilestoneCall (StatusOp mop bypassAdmin now milestoneId userId) s =
     snd (runMilestoneOp mop bypassAdmin now milestoneId userId s)"
| "runMilestoneCall (RequestDeletion now milestoneId userId) s =
     snd (requestDeletion now milestoneId userId s)"
| "runMilestoneCall (AcceptRequestDeletion milestoneId userId) s =
     snd (acceptRequestDeletion milestoneId userId s)"

fun runMilestoneCalls :: "milestoneCall list \<Rightarrow> store \<Rightarrow> store" where
  "runMilestoneCalls [] s = s"
| "runMilestoneCalls (c # cs) s = runMilestoneCalls cs (runMilestoneCall c s)"

text \<open>The sequence numbers of a contract's milestones, in the order of the rows.\<close>

definition sequencesOf :: "ident \<Rightarrow> store \<Rightarrow> int list" where
  "sequencesOf contractId s =
     map m_sequence (filter (\<lambda>m. m_contractId m = contractId) (milestones s))"

section \<open>A concrete store\<close>

text \<open>
  One client with a wallet (\<open>client1\<close>), one without (\<open>client2\<close>), an active freelancer
  (\<open>free1\<close>) and a suspended one (\<open>free2\<close>); five contracts, four of them with an escrow
  account; three milestones.
\<close>

definition exUsers :: "ident \<rightharpoonup> User" where
  "exUsers =
     [''client1'' \<mapsto> \<lparr>u_role = CLIENT, u_status = U_ACTIVE\<rparr>,
      ''client2'' \<mapsto> \<lparr>u_role = CLIENT, u_status = U_ACTIVE\<rparr>,
      ''free1'' \<mapsto> \<lparr>u_role = FREELANCER, u_status = U_ACTIVE\<rparr>,
      ''free2'' \<mapsto> \<lparr>u_role = FREELANCER, u_status = U_SUSPENDED\<rparr>]"

definition exContract :: "ident \<Rightarrow> ident \<Rightarrow> ident \<Rightarrow> ContractStatus \<Rightarrow> Contract" where
  "exContract cid client freelancer st =
     \<lparr>c_id = cid, c_clientId = client, c_freelancerId = freelancer, c_jobId = ''J1'',
      c_status = st, c_amount = 100, c_startDate = 0, c_endDate = None, c_submittedAt = None\<rparr>"

definition exContracts :: "ident \<rightharpoonup> Contract" where
  "exContracts =
     [''K1'' \<mapsto> exContract ''K1'' ''client1'' ''free1'' C_ACTIVE,
      ''K2'' \<mapsto> exContract ''K2'' ''client1'' ''free1'' C_ACTIVE,
      ''K3'' \<mapsto> exContract ''K3'' ''client1'' ''free2'' C_ACTIVE,
      ''K4'' \<mapsto> exContract ''K4'' ''client2'' ''free1'' C_PENDING,
      ''K5'' \<mapsto> exContract ''K5'' ''client1'' ''free1'' C_COMPLETED]"

definition exWallets :: "ident \<rightharpoonup> Wallet" where
  "exWallets =
     [''client1'' \<mapsto> \<lparr>w_id = ''w-client1'', availableBalance = 15000, pendingBalance = 0\<rparr>,
      ''free1'' \<mapsto> \<lparr>w_id = ''w-free1'', availableBalance = 0, pendingBalance = 0\<rparr>,
      ''free2'' \<mapsto> \<lparr>w_id = ''w-free2'', availableBalance = 0, pendingBalance = 0\<rparr>]"

definition exEscrow :: "ident \<Rightarrow> ident \<Rightarrow> ident \<Rightarrow> ident \<Rightarrow> int \<Rightarrow> EscrowAccount" where
  "exEscrow aid cid client freelancer held =
     \<lparr>ea_id = aid, ea_contractId = cid, ea_clientId = client, ea_freelancerId = freelancer,
      heldAmount = held, initialAmount = held, ea_status = ES_ACTIVE\<rparr>"

definition exEscrowAccounts :: "EscrowAccount list" where
  "exEscrowAccounts =
     [exEscrow ''E1'' ''K1'' ''client1'' ''free1'' 0,
      exEscrow ''E2'' ''K2'' ''client1'' ''free1'' 10000,
      exEscrow ''E3'' ''K3'' ''client1'' ''free2'' 500,
      exEscrow ''E4'' ''K4'' ''client2'' ''free1'' 700]"

definition exMilestone :: "ident \<Rightarrow> ident \<Rightarrow> int \<Rightarrow> MilestoneStatus \<Rightarrow> nat option \<Rightarrow> Milestone" where
  "exMilestone mid cid sq st delReq =
     \<lparr>m_id = mid, m_contractId = cid, m_sequence = sq, m_title = ''Design'',
      m_description = None, m_amount = 50, m_status = st, m_dueDate = Some 100,
      m_approvedAt = None, m_submittedAt = None, m_disputedAt = None,
      m_deletionRequestedAt = delReq\<rparr>"

definition exMilestones :: "Milestone list" where
  "exMilestones =
     [exMilestone ''M1'' ''K1'' 1 M_SUBMITTED None,
      exMilestone ''M2'' ''K1'' 2 M_PENDING (Some 3),
      exMilestone ''M3'' ''K5'' 1 M_SUBMITTED None]"

definition exStore :: store where
  "exStore =
     \<lparr>users = exUsers, contracts = exContracts, wallets = exWallets,
      escrowAccounts = exEscrowAccounts, escrowTransactions = [], walletTransactions = [],
      milestones = exMilestones\<rparr>"

text \<open>
  The milestone service on contract \<open>K2\<close> of the concrete store, which has no milestone
  yet: the store after the client has created milestone \<open>A\<close>, and a list of calls in which
  the client creates two milestones, asks for the first to be deleted, the freelancer
  accepts, and the client creates a third.
\<close>

definition exDTO :: MilestoneDTO where
  "exDTO =
     \<lparr>dto_contractId = ''K2'', dto_title = ''Design'', dto_description = None, dto_amount = 50,
      dto_dueDate = 100\<rparr>"

definition createdStore :: store where
  "createdStore = snd (createMilestone ''A'' 10 exDTO ''client1'' exStore)"

definition exMilestoneCalls :: "milestoneCall list" where
  "exMilestoneCalls =
     [CreateMilestone ''A'' 10 exDTO ''client1'',
      CreateMilestone ''B'' 11 exDTO ''client1'',
      RequestDeletion 12 ''A'' ''client1'',
      AcceptRequestDeletion ''A'' ''free1'',
      CreateMilestone ''C'' 13 exDTO ''client1'']"

text \<open>A list of escrow calls on the concrete store: the third and fourth are rejected.\<close>

definition exCalls :: "escrowCall list" where
  "exCalls =
     [DepositFunds ''client1'' ''K1'' 10000,
      ReleaseFunds ''client1'' ''K2'' 4000,
      RefundFunds ''K4'' 100 True,
      DepositFunds ''client1'' ''K1'' 20000,
      RefundFunds ''K3'' 200 True]"

section \<open>Facts about the ledger\<close>

lemmas ex_defs = exStore_def exUsers_def exContracts_def exWallets_def exEscrowAccounts_def
  exEscrow_def exContract_def exMilestones_def exMilestone_def

lemmas ledger_defs = depositFunds_def depositFunds_body_def releaseFunds_def releaseFunds_body_def
  refundFunds_def refundFunds_body_def getContractWithEscrow_def updatePendingBalance_def
  movePendingToAvailable_def movePendingToAvailable_body_def
  processPayoutDeduction_def processPayoutDeduction_body_def

lemmas tx_defs = ret_def throw_def bindTx_def transaction_def check_def wallet_findUnique_def
  wallet_update_def wallet_updateMany_def walletTransaction_create_def
  escrowAccount_findUnique_def escrowAccount_update_def escrowTransaction_create_def

lemmas fits_defs = int32_def walletFits_def escrowFits_def

lemma find_Some_D: "find P xs = Some a \<Longrightarrow> P a \<and> a \<in> set xs"
  by (induction xs) (auto split: if_splits)

lemma find_by_id_unique:
  "distinct (map ea_id xs) \<Longrightarrow> a \<in> set xs \<Longrightarrow> find (\<lambda>b. ea_id b = ea_id a) xs = Some a"
  by (induction xs) (auto simp: image_iff)

lemma same_id_same_row:
  "distinct (map ea_id xs) \<Longrightarrow> a \<in> set xs \<Longrightarrow> b \<in> set xs \<Longrightarrow> ea_id a = ea_id b \<Longrightarrow> a = b"
  by (meson distinct_map inj_on_def)

lemma find_own_id:
  "distinct (map ea_id (escrowAccounts s)) \<Longrightarrow>
   find (\<lambda>a. ea_contractId a = c) (escrowAccounts s) = Some escrow \<Longrightarrow>
   find (\<lambda>a. ea_id a = ea_id escrow) (escrowAccounts s) = Some escrow"
  using find_Some_D find_by_id_unique by fastforce

lemma filter_by_id_unique:
  "distinct (map ea_id xs) \<Longrightarrow> a \<in> set xs \<Longrightarrow> filter (\<lambda>b. ea_id b = ea_id a) xs = [a]"
proof (induction xs)
  case Nil
  then show ?case by simp
next
  case (Cons x xs)
  show ?case
  proof (cases "x = a")
    case True
    then have "\<forall>b\<in>set xs. ea_id b \<noteq> ea_id a"
      using Cons.prems(1) by (auto simp: image_iff)
    then have "filter (\<lambda>b. ea_id b = ea_id a) xs = []"
      by (simp add: filter_empty_conv)
    then show ?thesis using True by simp
  next
    case False
    then have mem: "a \<in> set xs" using Cons.prems(2) by simp
    then have "ea_id x \<noteq> ea_id a"
      using Cons.prems(1) by (auto simp: image_iff)
    then show ?thesis using Cons.IH mem Cons.prems(1) by simp
  qed
qed

lemma filter_own_id:
  "distinct (map ea_id (escrowAccounts s)) \<Longrightarrow>
   find (\<lambda>a. ea_contractId a = c) (escrowAccounts s) = Some escrow \<Longrightarrow>
   filter (\<lambda>a. ea_id a = ea_id escrow) (escrowAccounts s) = [escrow]"
  using find_Some_D filter_by_id_unique by fastforce

lemma find_id_of_member:
  "a \<in> set xs \<Longrightarrow> find (\<lambda>b. ea_id b = ea_id a) xs \<noteq> None"
  by (induction xs) auto

lemma getContractWithEscrow_Inr:
  "getContractWithEscrow c s = Inr (contract, escrow) \<Longrightarrow>
     contracts s c = Some contract \<and>
     find (\<lambda>a. ea_contractId a = c) (escrowAccounts s) = Some escrow"
  by (auto simp: getContractWithEscrow_def split: option.splits)

lemma transaction_rollback:
  "fst (transaction body s) = Inl e \<Longrightarrow> snd (transaction body s) = s"
  by (auto simp: transaction_def split: prod.splits sum.splits)

subsection \<open>Failure leaves the store as it was\<close>

lemma depositFunds_atomic:
  "fst (depositFunds u c a s) = Inl e \<Longrightarrow> snd (depositFunds u c a s) = s"
  by (auto simp: depositFunds_def dest: transaction_rollback split: sum.splits prod.splits if_splits)

lemma releaseFunds_atomic:
  "fst (releaseFunds u c a s) = Inl e \<Longrightarrow> snd (releaseFunds u c a s) = s"
  by (auto simp: releaseFunds_def dest: transaction_rollback split: sum.splits prod.splits if_splits)

lemma refundFunds_atomic:
  "fst (refundFunds c a b s) = Inl e \<Longrightarrow> snd (refundFunds c a b s) = s"
  by (auto simp: refundFunds_def dest: transaction_rollback split: sum.splits prod.splits if_splits)

lemma movePendingToAvailable_atomic:
  "fst (movePendingToAvailable u a s) = Inl e \<Longrightarrow> snd (movePendingToAvailable u a s) = s"
  by (auto simp: movePendingToAvailable_def ret_def dest: transaction_rollback split: if_splits)

lemma processPayoutDeduction_atomic:
  "fst (processPayoutDeduction u a w s) = Inl e \<Longrightarrow> snd (processPayoutDeduction u a w s) = s"
  by (auto simp: processPayoutDeduction_def ret_def dest: transaction_rollback split: if_splits)

subsection \<open>What each escrow operation returns\<close>

text \<open>
  The lemmas named \<open>_core\<close> take the range checks of the store as they are made: on the
  rows as written. The lemmas after them derive these from the rows as stored.
\<close>

lemma depositFunds_core:
  assumes "0 < amount"
    and "distinct (map ea_id (escrowAccounts s))"
    and "contracts s contractId = Some contract"
    and "find (\<lambda>a. ea_contractId a = contractId) (escrowAccounts s) = Some escrow"
    and "c_clientId contract = userId"
    and "wallets s userId = Some cw"
    and "amount \<le> availableBalance cw"
    and "walletFits (cw\<lparr>availableBalance := availableBalance cw - amount\<rparr>)"
    and "escrowFits (escrow\<lparr>heldAmount := heldAmount escrow + amount\<rparr>)"
    and "int32 amount"
  shows "depositFunds userId contractId amount s =
      (Inr (),
       s\<lparr>wallets := (wallets s)(userId \<mapsto> cw\<lparr>availableBalance := availableBalance cw - amount\<rparr>),
         escrowAccounts :=
           map (\<lambda>a. if ea_id a = ea_id escrow then a\<lparr>heldAmount := heldAmount a + amount\<rparr> else a)
             (escrowAccounts s),
         escrowTransactions := escrowTransactions s @
           [\<lparr>et_escrowAccountId = ea_id escrow, et_amount = amount, et_type = E_DEPOSIT,
             et_sourceWalletId = Some (w_id cw), et_destinationWalletId = None,
             et_description = ''Deposit for contract '' @ contractId\<rparr>],
         walletTransactions := walletTransactions s @
           [\<lparr>wt_walletId = w_id cw, wt_amount = amount, wt_type = T_HOLD,
             wt_relatedId = Some contractId,
             wt_metadata = ''Escrow Deposit for Contract '' @ contractId\<rparr>]\<rparr>)"
proof -
  have b: "find (\<lambda>a. ea_id a = ea_id escrow) (escrowAccounts s) = Some escrow"
    using assms(2,4) by (rule find_own_id)
  have f: "filter (\<lambda>a. ea_id a = ea_id escrow) (escrowAccounts s) = [escrow]"
    using assms(2,4) by (rule filter_own_id)
  show ?thesis
    using assms(1,3-10) b f
    by (simp add: depositFunds_def getContractWithEscrow_def depositFunds_body_def tx_defs)
qed

lemma depositFunds_client:
  assumes "0 < amount"
    and "distinct (map ea_id (escrowAccounts s))"
    and "contracts s contractId = Some contract"
    and "find (\<lambda>a. ea_contractId a = contractId) (escrowAccounts s) = Some escrow"
    and "c_clientId contract = userId"
    and "wallets s userId = Some cw"
    and "amount \<le> availableBalance cw"
    and "walletFits cw"
    and "escrowFits escrow"
    and "heldAmount escrow + amount \<le> 2147483647"
  shows "depositFunds userId contractId amount s =
      (Inr (),
       s\<lparr>wallets := (wallets s)(userId \<mapsto> cw\<lparr>availableBalance := availableBalance cw - amount\<rparr>),
         escrowAccounts :=
           map (\<lambda>a. if ea_id a = ea_id escrow then a\<lparr>heldAmount := heldAmount a + amount\<rparr> else a)
             (escrowAccounts s),
         escrowTransactions := escrowTransactions s @
           [\<lparr>et_escrowAccountId = ea_id escrow, et_amount = amount, et_type = E_DEPOSIT,
             et_sourceWalletId = Some (w_id cw), et_destinationWalletId = None,
             et_description = ''Deposit for contract '' @ contractId\<rparr>],
         walletTransactions := walletTransactions s @
           [\<lparr>wt_walletId = w_id cw, wt_amount = amount, wt_type = T_HOLD,
             wt_relatedId = Some contractId,
             wt_metadata = ''Escrow Deposit for Contract '' @ contractId\<rparr>]\<rparr>)"
proof -
  have w: "walletFits (cw\<lparr>availableBalance := availableBalance cw - amount\<rparr>)"
    using assms(1,7,8) by (simp add: fits_defs)
  have e: "escrowFits (escrow\<lparr>heldAmount := heldAmount escrow + amount\<rparr>)"
    using assms(1,9,10) by (simp add: fits_defs)
  have a: "int32 amount"
    using assms(1,7,8) by (simp add: fits_defs)
  show ?thesis
    by (rule depositFunds_core[OF assms(1-7) w e a])
qed

lemma depositFunds_overflow:
  assumes "0 < amount"
    and "distinct (map ea_id (escrowAccounts s))"
    and "contracts s contractId = Some contract"
    and "find (\<lambda>a. ea_contractId a = contractId) (escrowAccounts s) = Some escrow"
    and "c_clientId contract = userId"
    and "wallets s userId = Some cw"
    and "amount \<le> availableBalance cw"
    and "walletFits cw"
    and "2147483647 < heldAmount escrow + amount"
  shows "depositFunds userId contractId amount s = (Inl IntegerOutOfRange, s)"
proof -
  have b: "find (\<lambda>a. ea_id a = ea_id escrow) (escrowAccounts s) = Some escrow"
    using assms(2,4) by (rule find_own_id)
  have f: "filter (\<lambda>a. ea_id a = ea_id escrow) (escrowAccounts s) = [escrow]"
    using assms(2,4) by (rule filter_own_id)
  have w: "walletFits (cw\<lparr>availableBalance := availableBalance cw - amount\<rparr>)"
    using assms(1,7,8) by (simp add: fits_defs)
  have e: "\<not> escrowFits (escrow\<lparr>heldAmount := heldAmount escrow + amount\<rparr>)"
    using assms(9) by (simp add: fits_defs)
  show ?thesis
    using assms(1,3-7) b f w e
    by (simp add: depositFunds_def getContractWithEscrow_def depositFunds_body_def tx_defs)
qed

lemma depositFunds_insufficient:
  assumes "0 < amount"
    and "contracts s contractId = Some contract"
    and "find (\<lambda>a. ea_contractId a = contractId) (escrowAccounts s) = Some escrow"
    and "c_clientId contract = userId"
    and "wallets s userId = None \<or> (\<exists>cw. wallets s userId = Some cw \<and> availableBalance cw < amount)"
  shows "depositFunds userId contractId amount s = (Inl InsufficientAvailableBalance, s)"
  using assms
  by (auto simp: depositFunds_def getContractWithEscrow_def depositFunds_body_def tx_defs)

lemma depositFunds_unauthorized:
  assumes "0 < amount"
    and "contracts s contractId = Some contract"
    and "find (\<lambda>a. ea_contractId a = contractId) (escrowAccounts s) = Some escrow"
    and "c_clientId contract \<noteq> userId"
  shows "depositFunds userId contractId amount s = (Inl Unauthorized, s)"
  using assms by (simp add: depositFunds_def getContractWithEscrow_def)

lemma depositFunds_Inr:
  assumes r: "fst (depositFunds u c a s) = Inr x"
    and d: "distinct (map ea_id (escrowAccounts s))"
  shows "\<exists>contract escrow cw. 0 < a \<and> contracts s c = Some contract \<and>
      find (\<lambda>a. ea_contractId a = c) (escrowAccounts s) = Some escrow \<and>
      c_clientId contract = u \<and> wallets s u = Some cw \<and> a \<le> availableBalance cw \<and>
      walletFits (cw\<lparr>availableBalance := availableBalance cw - a\<rparr>) \<and>
      escrowFits (escrow\<lparr>heldAmount := heldAmount escrow + a\<rparr>) \<and> int32 a"
proof -
  from r have pos: "0 < a"
    by (auto simp: depositFunds_def split: if_splits)
  from r pos obtain contract escrow where g: "getContractWithEscrow c s = Inr (contract, escrow)"
    by (auto simp: depositFunds_def split: sum.splits)
  from r pos g have cl: "c_clientId contract = u"
    by (auto simp: depositFunds_def split: if_splits)
  from r pos g cl have body: "fst (transaction (depositFunds_body u c a escrow) s) = Inr x"
    by (simp add: depositFunds_def)
  have f: "find (\<lambda>a. ea_id a = ea_id escrow) (escrowAccounts s) = Some escrow"
    using d g getContractWithEscrow_Inr find_own_id by blast
  have fl: "filter (\<lambda>a. ea_id a = ea_id escrow) (escrowAccounts s) = [escrow]"
    using d g getContractWithEscrow_Inr filter_own_id by blast
  from body f fl have "\<exists>cw. wallets s u = Some cw \<and> a \<le> availableBalance cw \<and>
      walletFits (cw\<lparr>availableBalance := availableBalance cw - a\<rparr>) \<and>
      escrowFits (escrow\<lparr>heldAmount := heldAmount escrow + a\<rparr>) \<and> int32 a"
    by (auto simp: depositFunds_body_def tx_defs split: option.splits if_splits)
  with pos cl g getContractWithEscrow_Inr show ?thesis by blast
qed

lemma releaseFunds_core:
  assumes "0 < amount"
    and "distinct (map ea_id (escrowAccounts s))"
    and "contracts s contractId = Some contract"
    and "find (\<lambda>a. ea_contractId a = contractId) (escrowAccounts s) = Some escrow"
    and "c_clientId contract = userId"
    and "amount \<le> heldAmount escrow"
    and "wallets s (c_freelancerId contract) = Some fw"
    and "users s (c_freelancerId contract) = Some usr"
    and "u_role usr = FREELANCER" and "u_status usr = U_ACTIVE"
    and "escrowFits (escrow\<lparr>heldAmount := heldAmount escrow - amount\<rparr>)"
    and "walletFits (fw\<lparr>pendingBalance := pendingBalance fw + amount\<rparr>)"
    and "int32 amount"
  shows "releaseFunds userId contractId amount s =
      (Inr (),
       s\<lparr>escrowAccounts :=
           map (\<lambda>a. if ea_id a = ea_id escrow then a\<lparr>heldAmount := heldAmount a - amount\<rparr> else a)
             (escrowAccounts s),
         wallets := (wallets s)(c_freelancerId contract \<mapsto>
                       fw\<lparr>pendingBalance := pendingBalance fw + amount\<rparr>),
         walletTransactions := walletTransactions s @
           [\<lparr>wt_walletId = w_id fw, wt_amount = amount, wt_type = T_RELEASE,
             wt_relatedId = None, wt_metadata = ''Milestone Completion (Pending)''\<rparr>],
         escrowTransactions := escrowTransactions s @
           [\<lparr>et_escrowAccountId = ea_id escrow, et_amount = amount, et_type = E_RELEASE,
             et_sourceWalletId = None, et_destinationWalletId = Some (w_id fw),
             et_description = ''Funds released for Contract '' @ contractId @ '' milestone''\<rparr>]\<rparr>)"
proof -
  have b: "find (\<lambda>a. ea_id a = ea_id escrow) (escrowAccounts s) = Some escrow"
    using assms(2,4) by (rule find_own_id)
  have f: "filter (\<lambda>a. ea_id a = ea_id escrow) (escrowAccounts s) = [escrow]"
    using assms(2,4) by (rule filter_own_id)
  show ?thesis
    using assms(1,3-13) b f
    by (simp add: releaseFunds_def getContractWithEscrow_def releaseFunds_body_def
        updatePendingBalance_def tx_defs)
qed

lemma releaseFunds_client:
  assumes "0 < amount"
    and "distinct (map ea_id (escrowAccounts s))"
    and "contracts s contractId = Some contract"
    and "find (\<lambda>a. ea_contractId a = contractId) (escrowAccounts s) = Some escrow"
    and "c_clientId contract = userId"
    and "amount \<le> heldAmount escrow"
    and "wallets s (c_freelancerId contract) = Some fw"
    and "users s (c_freelancerId contract) = Some usr"
    and "u_role usr = FREELANCER" and "u_status usr = U_ACTIVE"
    and "escrowFits escrow"
    and "walletFits fw"
    and "pendingBalance fw + amount \<le> 2147483647"
  shows "releaseFunds userId contractId amount s =
      (Inr (),
       s\<lparr>escrowAccounts :=
           map (\<lambda>a. if ea_id a = ea_id escrow then a\<lparr>heldAmount := heldAmount a - amount\<rparr> else a)
             (escrowAccounts s),
         wallets := (wallets s)(c_freelancerId contract \<mapsto>
                       fw\<lparr>pendingBalance := pendingBalance fw + amount\<rparr>),
         walletTransactions := walletTransactions s @
           [\<lparr>wt_walletId = w_id fw, wt_amount = amount, wt_type = T_RELEASE,
             wt_relatedId = None, wt_metadata = ''Milestone Completion (Pending)''\<rparr>],
         escrowTransactions := escrowTransactions s @
           [\<lparr>et_escrowAccountId = ea_id escrow, et_amount = amount, et_type = E_RELEASE,
             et_sourceWalletId = None, et_destinationWalletId = Some (w_id fw),
             et_description = ''Funds released for Contract '' @ contractId @ '' milestone''\<rparr>]\<rparr>)"
proof -
  have e: "escrowFits (escrow\<lparr>heldAmount := heldAmount escrow - amount\<rparr>)"
    using assms(1,6,11) by (simp add: fits_defs)
  have w: "walletFits (fw\<lparr>pendingBalance := pendingBalance fw + amount\<rparr>)"
    using assms(1,12,13) by (simp add: fits_defs)
  have a: "int32 amount"
    using assms(1,6,11) by (simp add: fits_defs)
  show ?thesis
    by (rule releaseFunds_core[OF assms(1-10) e w a])
qed

lemma releaseFunds_no_wallet:
  assumes "0 < amount"
    and "distinct (map ea_id (escrowAccounts s))"
    and "contracts s contractId = Some contract"
    and "find (\<lambda>a. ea_contractId a = contractId) (escrowAccounts s) = Some escrow"
    and "c_clientId contract = userId"
    and "amount \<le> heldAmount escrow"
    and "escrowFits escrow"
    and "\<not> (\<exists>fw usr. wallets s (c_freelancerId contract) = Some fw \<and>
            users s (c_freelancerId contract) = Some usr \<and>
            u_role usr = FREELANCER \<and> u_status usr = U_ACTIVE)"
  shows "releaseFunds userId contractId amount s = (Inl FreelancerWalletNotFoundOrInactive, s)"
proof -
  have b: "find (\<lambda>a. ea_id a = ea_id escrow) (escrowAccounts s) = Some escrow"
    using assms(2,4) by (rule find_own_id)
  have f: "filter (\<lambda>a. ea_id a = ea_id escrow) (escrowAccounts s) = [escrow]"
    using assms(2,4) by (rule filter_own_id)
  have e: "escrowFits (escrow\<lparr>heldAmount := heldAmount escrow - amount\<rparr>)"
    using assms(1,6,7) by (simp add: fits_defs)
  show ?thesis
    using assms(1,3-6,8) b f e
    by (auto simp add: releaseFunds_def getContractWithEscrow_def releaseFunds_body_def
        updatePendingBalance_def tx_defs split: option.splits)
qed

lemma releaseFunds_insufficient:
  assumes "0 < amount"
    and "distinct (map ea_id (escrowAccounts s))"
    and "contracts s contractId = Some contract"
    and "find (\<lambda>a. ea_contractId a = contractId) (escrowAccounts s) = Some escrow"
    and "c_clientId contract = userId"
    and "heldAmount escrow < amount"
  shows "releaseFunds userId contractId amount s = (Inl InsufficientEscrowFunds, s)"
proof -
  have b: "find (\<lambda>a. ea_id a = ea_id escrow) (escrowAccounts s) = Some escrow"
    using assms(2,4) by (rule find_own_id)
  show ?thesis
    using assms b
    by (simp add: releaseFunds_def getContractWithEscrow_def releaseFunds_body_def tx_defs)
qed

lemma releaseFunds_overflow:
  assumes "0 < amount"
    and "distinct (map ea_id (escrowAccounts s))"
    and "contracts s contractId = Some contract"
    and "find (\<lambda>a. ea_contractId a = contractId) (escrowAccounts s) = Some escrow"
    and "c_clientId contract = userId"
    and "amount \<le> heldAmount escrow"
    and "wallets s (c_freelancerId contract) = Some fw"
    and "users s (c_freelancerId contract) = Some usr"
    and "u_role usr = FREELANCER" and "u_status usr = U_ACTIVE"
    and "escrowFits escrow"
    and "2147483647 < pendingBalance fw + amount"
  shows "releaseFunds userId contractId amount s = (Inl IntegerOutOfRange, s)"
proof -
  have b: "find (\<lambda>a. ea_id a = ea_id escrow) (escrowAccounts s) = Some escrow"
    using assms(2,4) by (rule find_own_id)
  have f: "filter (\<lambda>a. ea_id a = ea_id escrow) (escrowAccounts s) = [escrow]"
    using assms(2,4) by (rule filter_own_id)
  have e: "escrowFits (escrow\<lparr>heldAmount := heldAmount escrow - amount\<rparr>)"
    using assms(1,6,11) by (simp add: fits_defs)
  have w: "\<not> walletFits (fw\<lparr>pendingBalance := pendingBalance fw + amount\<rparr>)"
    using assms(12) by (simp add: fits_defs)
  show ?thesis
    using assms(1,3-10) b f e w
    by (simp add: releaseFunds_def getContractWithEscrow_def releaseFunds_body_def
        updatePendingBalance_def tx_defs)
qed

lemma releaseFunds_Inr:
  assumes r: "fst (releaseFunds u c a s) = Inr x"
    and d: "distinct (map ea_id (escrowAccounts s))"
  shows "\<exists>contract escrow fw usr. 0 < a \<and> contracts s c = Some contract \<and>
      find (\<lambda>a. ea_contractId a = c) (escrowAccounts s) = Some escrow \<and>
      c_clientId contract = u \<and> a \<le> heldAmount escrow \<and>
      wallets s (c_freelancerId contract) = Some fw \<and>
      users s (c_freelancerId contract) = Some usr \<and>
      u_role usr = FREELANCER \<and> u_status usr = U_ACTIVE \<and>
      escrowFits (escrow\<lparr>heldAmount := heldAmount escrow - a\<rparr>) \<and>
      walletFits (fw\<lparr>pendingBalance := pendingBalance fw + a\<rparr>) \<and> int32 a"
proof -
  from r have pos: "0 < a"
    by (auto simp: releaseFunds_def split: if_splits)
  from r pos obtain contract escrow where g: "getContractWithEscrow c s = Inr (contract, escrow)"
    by (auto simp: releaseFunds_def split: sum.splits)
  from r pos g have cl: "c_clientId contract = u"
    by (auto simp: releaseFunds_def split: if_splits)
  from r pos g cl have body: "fst (transaction (releaseFunds_body c a contract escrow) s) = Inr x"
    by (simp add: releaseFunds_def)
  have f: "find (\<lambda>a. ea_id a = ea_id escrow) (escrowAccounts s) = Some escrow"
    using d g getContractWithEscrow_Inr find_own_id by blast
  have fl: "filter (\<lambda>a. ea_id a = ea_id escrow) (escrowAccounts s) = [escrow]"
    using d g getContractWithEscrow_Inr filter_own_id by blast
  from body f fl pos have "a \<le> heldAmount escrow \<and> (\<exists>fw usr.
      wallets s (c_freelancerId contract) = Some fw \<and>
      users s (c_freelancerId contract) = Some usr \<and>
      u_role usr = FREELANCER \<and> u_status usr = U_ACTIVE \<and>
      escrowFits (escrow\<lparr>heldAmount := heldAmount escrow - a\<rparr>) \<and>
      walletFits (fw\<lparr>pendingBalance := pendingBalance fw + a\<rparr>) \<and> int32 a)"
    by (auto simp: releaseFunds_body_def updatePendingBalance_def tx_defs
        split: option.splits if_splits)
  with pos cl g getContractWithEscrow_Inr show ?thesis by blast
qed

lemma refundFunds_core:
  assumes "0 < amount"
    and "distinct (map ea_id (escrowAccounts s))"
    and "contracts s contractId = Some contract"
    and "find (\<lambda>a. ea_contractId a = contractId) (escrowAccounts s) = Some escrow"
    and "amount \<le> heldAmount escrow"
    and "wallets s (c_clientId contract) = Some cw"
    and "escrowFits (escrow\<lparr>heldAmount := heldAmount escrow - amount\<rparr>)"
    and "walletFits (cw\<lparr>availableBalance := availableBalance cw + amount\<rparr>)"
    and "int32 amount"
  shows "refundFunds contractId amount isSys s =
      (Inr (),
       s\<lparr>escrowAccounts :=
           map (\<lambda>a. if ea_id a = ea_id escrow then a\<lparr>heldAmount := heldAmount a - amount\<rparr> else a)
             (escrowAccounts s),
         wallets := (wallets s)(c_clientId contract \<mapsto>
                       cw\<lparr>availableBalance := availableBalance cw + amount\<rparr>),
         escrowTransactions := escrowTransactions s @
           [\<lparr>et_escrowAccountId = ea_id escrow, et_amount = amount, et_type = E_REFUND,
             et_sourceWalletId = None, et_destinationWalletId = Some (w_id cw),
             et_description = ''Refund for contract '' @ contractId @ '' (System: ''
                          @ (if isSys then ''true'' else ''false'') @ '')''\<rparr>],
         walletTransactions := walletTransactions s @
           [\<lparr>wt_walletId = w_id cw, wt_amount = amount, wt_type = T_ADJUSTMENT,
             wt_relatedId = Some contractId,
             wt_metadata = ''Escrow Refund from Contract '' @ contractId\<rparr>]\<rparr>)"
proof -
  have b: "find (\<lambda>a. ea_id a = ea_id escrow) (escrowAccounts s) = Some escrow"
    using assms(2,4) by (rule find_own_id)
  have f: "filter (\<lambda>a. ea_id a = ea_id escrow) (escrowAccounts s) = [escrow]"
    using assms(2,4) by (rule filter_own_id)
  show ?thesis
    using assms(1,3-9) b f
    by (simp add: refundFunds_def getContractWithEscrow_def refundFunds_body_def tx_defs)
qed

lemma refundFunds_Inr:
  assumes r: "fst (refundFunds c a b s) = Inr x"
    and d: "distinct (map ea_id (escrowAccounts s))"
  shows "\<exists>contract escrow cw. 0 < a \<and> contracts s c = Some contract \<and>
      find (\<lambda>a. ea_contractId a = c) (escrowAccounts s) = Some escrow \<and>
      a \<le> heldAmount escrow \<and> wallets s (c_clientId contract) = Some cw \<and>
      escrowFits (escrow\<lparr>heldAmount := heldAmount escrow - a\<rparr>) \<and>
      walletFits (cw\<lparr>availableBalance := availableBalance cw + a\<rparr>) \<and> int32 a"
proof -
  from r have pos: "0 < a"
    by (auto simp: refundFunds_def split: if_splits)
  from r pos obtain contract escrow where g: "getContractWithEscrow c s = Inr (contract, escrow)"
    by (auto simp: refundFunds_def split: sum.splits)
  from r pos g have body: "fst (transaction (refundFunds_body c a b contract escrow) s) = Inr x"
    by (simp add: refundFunds_def)
  have f: "find (\<lambda>a. ea_id a = ea_id escrow) (escrowAccounts s) = Some escrow"
    using d g getContractWithEscrow_Inr find_own_id by blast
  have fl: "filter (\<lambda>a. ea_id a = ea_id escrow) (escrowAccounts s) = [escrow]"
    using d g getContractWithEscrow_Inr filter_own_id by blast
  from body f fl have "a \<le> heldAmount escrow \<and> (\<exists>cw. wallets s (c_clientId contract) = Some cw \<and>
      escrowFits (escrow\<lparr>heldAmount := heldAmount escrow - a\<rparr>) \<and>
      walletFits (cw\<lparr>availableBalance := availableBalance cw + a\<rparr>) \<and> int32 a)"
    by (auto simp: refundFunds_body_def tx_defs split: option.splits if_splits)
  with pos g getContractWithEscrow_Inr show ?thesis by blast
qed

text \<open>The refused increments on concrete rows close to the end of the 32-bit range.\<close>

lemma depositFunds_overflow_example:
  "depositFunds ''client1'' ''K1'' 10000
     (exStore\<lparr>escrowAccounts := [exEscrow ''E1'' ''K1'' ''client1'' ''free1'' 2147480000]\<rparr>) =
   (Inl IntegerOutOfRange,
    exStore\<lparr>escrowAccounts := [exEscrow ''E1'' ''K1'' ''client1'' ''free1'' 2147480000]\<rparr>)"
  by (simp add: ex_defs ledger_defs tx_defs fits_defs)

lemma releaseFunds_overflow_example:
  "releaseFunds ''client1'' ''K2'' 4000
     (exStore\<lparr>wallets := exWallets(''free1'' \<mapsto>
        \<lparr>w_id = ''w-free1'', availableBalance = 0, pendingBalance = 2147483000\<rparr>)\<rparr>) =
   (Inl IntegerOutOfRange,
    exStore\<lparr>wallets := exWallets(''free1'' \<mapsto>
        \<lparr>w_id = ''w-free1'', availableBalance = 0, pendingBalance = 2147483000\<rparr>)\<rparr>)"
  by (simp add: ex_defs ledger_defs tx_defs fits_defs)

subsection \<open>The reconciliation invariant is kept by every call\<close>

lemma sumOfType_append:
  "sumOfType t i (txs @ [x]) =
     sumOfType t i txs + (if et_escrowAccountId x = i \<and> et_type x = t then et_amount x else 0)"
  by (simp add: sumOfType_def)

lemma id_after_held_update:
  "ea_id \<circ> (\<lambda>a. if ea_id a = i then a\<lparr>heldAmount := h a\<rparr> else a) = ea_id"
  by (auto simp: fun_eq_iff)

lemma reconciled_other:
  "reconciled txs b \<Longrightarrow> et_escrowAccountId x \<noteq> ea_id b \<Longrightarrow> reconciled (txs @ [x]) b"
  by (simp add: reconciled_def sumOfType_append)

lemma reconciled_deposit:
  "reconciled txs b \<Longrightarrow> et_escrowAccountId x = ea_id b \<Longrightarrow> et_type x = E_DEPOSIT \<Longrightarrow>
   0 < et_amount x \<Longrightarrow>
   reconciled (txs @ [x]) (b\<lparr>heldAmount := heldAmount b + et_amount x\<rparr>)"
  by (simp add: reconciled_def sumOfType_append)

lemma reconciled_withdraw:
  "reconciled txs b \<Longrightarrow> et_escrowAccountId x = ea_id b \<Longrightarrow> et_type x \<noteq> E_DEPOSIT \<Longrightarrow>
   et_amount x \<le> heldAmount b \<Longrightarrow>
   reconciled (txs @ [x]) (b\<lparr>heldAmount := heldAmount b - et_amount x\<rparr>)"
  by (cases "et_type x") (simp_all add: reconciled_def sumOfType_append)

lemma deposit_rows:
  assumes inv: "ledgerInv s"
    and pos: "0 < a"
    and x: "et_escrowAccountId x = ea_id escrow" "et_type x = E_DEPOSIT" "et_amount x = a"
  shows "ledgerInv (s\<lparr>wallets := ws,
         escrowAccounts :=
           map (\<lambda>b. if ea_id b = ea_id escrow then b\<lparr>heldAmount := heldAmount b + a\<rparr> else b)
             (escrowAccounts s),
         escrowTransactions := escrowTransactions s @ [x],
         walletTransactions := wts\<rparr>)"
proof -
  have d: "distinct (map ea_id (escrowAccounts s))" using inv by (simp add: ledgerInv_def)
  have rec: "\<And>b. b \<in> set (escrowAccounts s) \<Longrightarrow> reconciled (escrowTransactions s) b"
    using inv by (simp add: ledgerInv_def)
  have row1: "reconciled (escrowTransactions s @ [x]) (b\<lparr>heldAmount := heldAmount b + a\<rparr>)"
    if b: "b \<in> set (escrowAccounts s)" "ea_id b = ea_id escrow" for b
    using rec[OF b(1)] b(2) x pos reconciled_deposit[of "escrowTransactions s" b x] by simp
  have row2: "reconciled (escrowTransactions s @ [x]) b"
    if b: "b \<in> set (escrowAccounts s)" "ea_id b \<noteq> ea_id escrow" for b
    using rec[OF b(1)] b(2) x(1) by (simp add: reconciled_other)
  show ?thesis
    using d row1 row2 by (auto simp: ledgerInv_def id_after_held_update)
qed

lemma deposit_inv:
  assumes "ledgerInv s"
  shows "ledgerInv (snd (depositFunds u c a s))"
proof (cases "fst (depositFunds u c a s)")
  case (Inl e)
  then show ?thesis using assms depositFunds_atomic by simp
next
  case (Inr x)
  have d: "distinct (map ea_id (escrowAccounts s))" using assms by (simp add: ledgerInv_def)
  from depositFunds_Inr[OF Inr d]
  obtain contract escrow cw where p: "0 < a" "contracts s c = Some contract"
      "find (\<lambda>a. ea_contractId a = c) (escrowAccounts s) = Some escrow"
      "c_clientId contract = u" "wallets s u = Some cw" "a \<le> availableBalance cw"
      "walletFits (cw\<lparr>availableBalance := availableBalance cw - a\<rparr>)"
      "escrowFits (escrow\<lparr>heldAmount := heldAmount escrow + a\<rparr>)" "int32 a"
    by blast
  show ?thesis
    unfolding depositFunds_core[OF p(1) d p(2-9)] snd_conv
    by (rule deposit_rows[OF assms p(1)]) simp_all
qed

lemma withdraw_rows:
  assumes inv: "ledgerInv s"
    and mem: "escrow \<in> set (escrowAccounts s)"
    and le: "a \<le> heldAmount escrow"
    and x: "et_escrowAccountId x = ea_id escrow" "et_type x \<noteq> E_DEPOSIT" "et_amount x = a"
  shows "ledgerInv (s\<lparr>escrowAccounts :=
           map (\<lambda>b. if ea_id b = ea_id escrow then b\<lparr>heldAmount := heldAmount b - a\<rparr> else b)
             (escrowAccounts s),
         wallets := ws, walletTransactions := wts,
         escrowTransactions := escrowTransactions s @ [x]\<rparr>)"
proof -
  have d: "distinct (map ea_id (escrowAccounts s))" using inv by (simp add: ledgerInv_def)
  have rec: "\<And>b. b \<in> set (escrowAccounts s) \<Longrightarrow> reconciled (escrowTransactions s) b"
    using inv by (simp add: ledgerInv_def)
  have row1: "reconciled (escrowTransactions s @ [x]) (b\<lparr>heldAmount := heldAmount b - a\<rparr>)"
    if b: "b \<in> set (escrowAccounts s)" "ea_id b = ea_id escrow" for b
  proof -
    have "b = escrow" using d b mem same_id_same_row by blast
    then show ?thesis
      using rec[OF mem] x le reconciled_withdraw[of "escrowTransactions s" escrow x] by simp
  qed
  have row2: "reconciled (escrowTransactions s @ [x]) b"
    if b: "b \<in> set (escrowAccounts s)" "ea_id b \<noteq> ea_id escrow" for b
    using rec[OF b(1)] b(2) x(1) by (simp add: reconciled_other)
  show ?thesis
    using d row1 row2 by (auto simp: ledgerInv_def id_after_held_update)
qed

lemma release_inv:
  assumes "ledgerInv s"
  shows "ledgerInv (snd (releaseFunds u c a s))"
proof (cases "fst (releaseFunds u c a s)")
  case (Inl e)
  then show ?thesis using assms releaseFunds_atomic by simp
next
  case (Inr x)
  have d: "distinct (map ea_id (escrowAccounts s))" using assms by (simp add: ledgerInv_def)
  from releaseFunds_Inr[OF Inr d]
  obtain contract escrow fw usr where p: "0 < a" "contracts s c = Some contract"
      "find (\<lambda>a. ea_contractId a = c) (escrowAccounts s) = Some escrow"
      "c_clientId contract = u" "a \<le> heldAmount escrow"
      "wallets s (c_freelancerId contract) = Some fw"
      "users s (c_freelancerId contract) = Some usr"
      "u_role usr = FREELANCER" "u_status usr = U_ACTIVE"
      "escrowFits (escrow\<lparr>heldAmount := heldAmount escrow - a\<rparr>)"
      "walletFits (fw\<lparr>pendingBalance := pendingBalance fw + a\<rparr>)" "int32 a"
    by blast
  have mem: "escrow \<in> set (escrowAccounts s)" using p(3) find_Some_D by fastforce
  show ?thesis
    unfolding releaseFunds_core[OF p(1) d p(2-12)] snd_conv
    by (rule withdraw_rows[OF assms mem p(5)]) simp_all
qed

lemma refund_inv:
  assumes "ledgerInv s"
  shows "ledgerInv (snd (refundFunds c a b s))"
proof (cases "fst (refundFunds c a b s)")
  case (Inl e)
  then show ?thesis using assms refundFunds_atomic by simp
next
  case (Inr x)
  have d: "distinct (map ea_id (escrowAccounts s))" using assms by (simp add: ledgerInv_def)
  from refundFunds_Inr[OF Inr d]
  obtain contract escrow cw where p: "0 < a" "contracts s c = Some contract"
      "find (\<lambda>a. ea_contractId a = c) (escrowAccounts s) = Some escrow"
      "a \<le> heldAmount escrow" "wallets s (c_clientId contract) = Some cw"
      "escrowFits (escrow\<lparr>heldAmount := heldAmount escrow - a\<rparr>)"
      "walletFits (cw\<lparr>availableBalance := availableBalance cw + a\<rparr>)" "int32 a"
    by blast
  have mem: "escrow \<in> set (escrowAccounts s)" using p(3) find_Some_D by fastforce
  let ?x = "\<lparr>et_escrowAccountId = ea_id escrow, et_amount = a, et_type = E_REFUND,
             et_sourceWalletId = None, et_destinationWalletId = Some (w_id cw),
             et_description = ''Refund for contract '' @ c @ '' (System: ''
                          @ (if b then ''true'' else ''false'') @ '')''\<rparr>"
  have "ledgerInv (s\<lparr>escrowAccounts :=
           map (\<lambda>b. if ea_id b = ea_id escrow then b\<lparr>heldAmount := heldAmount b - a\<rparr> else b)
             (escrowAccounts s),
         wallets := (wallets s)(c_clientId contract \<mapsto>
                       cw\<lparr>availableBalance := availableBalance cw + a\<rparr>),
         walletTransactions := walletTransactions s @
           [\<lparr>wt_walletId = w_id cw, wt_amount = a, wt_type = T_ADJUSTMENT,
             wt_relatedId = Some c,
             wt_metadata = ''Escrow Refund from Contract '' @ c\<rparr>],
         escrowTransactions := escrowTransactions s @ [?x]\<rparr>)"
    by (rule withdraw_rows[OF assms mem p(4)]) simp_all
  then show ?thesis
    unfolding refundFunds_core[OF p(1) d p(2-8)] ledgerInv_def by simp
qed

lemma runCalls_inv: "ledgerInv s \<Longrightarrow> ledgerInv (runCalls cs s)"
proof (induction cs arbitrary: s)
  case Nil
  then show ?case by simp
next
  case (Cons c cs)
  have "ledgerInv (snd (runCall c s))"
    using Cons.prems by (cases c) (simp_all add: deposit_inv release_inv refund_inv)
  then show ?case using Cons.IH by simp
qed

section \<open>The escrow and wallet ledger: the claims\<close>

text \<open>
  Claim C1. For every escrow account, after any sequence of \<open>depositFunds\<close>,
  \<open>releaseFunds\<close> and \<open>refundFunds\<close> calls, each of which may succeed or be rejected,
  \<open>heldAmount\<close> equals \<open>initialAmount\<close> plus the DEPOSIT amounts minus the RELEASE amounts
  minus the REFUND amounts recorded for the account, and \<open>heldAmount\<close> is not negative
  (\<open>reconciled\<close> is the conjunction of the two). The sequence starts from any store in which
  escrow account ids are distinct (the primary key) and every account is reconciled, as a
  newly created account with no transactions is.
\<close>

theorem escrow_ledger_reconciles:
  assumes "distinct (map ea_id (escrowAccounts s))"
    and "\<forall>a\<in>set (escrowAccounts s). reconciled (escrowTransactions s) a"
  shows "\<forall>a\<in>set (escrowAccounts (runCalls calls s)).
           reconciled (escrowTransactions (runCalls calls s)) a"
  using assms runCalls_inv[of s calls] by (simp add: ledgerInv_def)

theorem escrow_ledger_reconciles_witness:
  "distinct (map ea_id (escrowAccounts exStore)) \<and>
   list_all (reconciled (escrowTransactions exStore)) (escrowAccounts exStore) \<and>
   list_all (reconciled (escrowTransactions (runCalls exCalls exStore)))
     (escrowAccounts (runCalls exCalls exStore)) \<and>
   map heldAmount (escrowAccounts (runCalls exCalls exStore)) = [10000, 6000, 300, 700] \<and>
   map et_type (escrowTransactions (runCalls exCalls exStore)) = [E_DEPOSIT, E_RELEASE, E_REFUND]"
proof -
  have d: "distinct (map ea_id (escrowAccounts exStore))"
    by (simp add: ex_defs)
  have r: "\<forall>a\<in>set (escrowAccounts exStore). reconciled (escrowTransactions exStore) a"
    by (simp add: ex_defs reconciled_def sumOfType_def)
  have run: "map heldAmount (escrowAccounts (runCalls exCalls exStore)) = [10000, 6000, 300, 700] \<and>
   map et_type (escrowTransactions (runCalls exCalls exStore)) = [E_DEPOSIT, E_RELEASE, E_REFUND]"
    by (simp add: exCalls_def ex_defs ledger_defs tx_defs fits_defs)
  show ?thesis
    using d r run escrow_ledger_reconciles[OF d r, of exCalls]
    by (simp add: list_all_iff)
qed

text \<open>
  Claim C3. When a core financial operation (escrow deposit, release, refund; wallet
  \<open>movePendingToAvailable\<close>, \<open>processPayoutDeduction\<close>) fails with any error, the store it
  leaves behind is the store it was called on: wallets, escrow accounts and both
  transaction logs are as before. The release and refund bodies do write before they can
  fail (the escrow account is decremented first); the transaction discards those writes.
\<close>

theorem financial_operations_atomic:
  "(\<forall>e. fst (depositFunds userId contractId amount s) = Inl e \<longrightarrow>
        snd (depositFunds userId contractId amount s) = s) \<and>
   (\<forall>e. fst (releaseFunds userId contractId amount s) = Inl e \<longrightarrow>
        snd (releaseFunds userId contractId amount s) = s) \<and>
   (\<forall>e. fst (refundFunds contractId amount isSystemRefund s) = Inl e \<longrightarrow>
        snd (refundFunds contractId amount isSystemRefund s) = s) \<and>
   (\<forall>e. fst (movePendingToAvailable userId amount s) = Inl e \<longrightarrow>
        snd (movePendingToAvailable userId amount s) = s) \<and>
   (\<forall>e. fst (processPayoutDeduction userId amount withdrawalId s) = Inl e \<longrightarrow>
        snd (processPayoutDeduction userId amount withdrawalId s) = s)"
proof (intro conjI allI impI)
  fix e assume "fst (depositFunds userId contractId amount s) = Inl e"
  then show "snd (depositFunds userId contractId amount s) = s" by (rule depositFunds_atomic)
next
  fix e assume "fst (releaseFunds userId contractId amount s) = Inl e"
  then show "snd (releaseFunds userId contractId amount s) = s" by (rule releaseFunds_atomic)
next
  fix e assume "fst (refundFunds contractId amount isSystemRefund s) = Inl e"
  then show "snd (refundFunds contractId amount isSystemRefund s) = s" by (rule refundFunds_atomic)
next
  fix e assume "fst (movePendingToAvailable userId amount s) = Inl e"
  then show "snd (movePendingToAvailable userId amount s) = s"
    by (rule movePendingToAvailable_atomic)
next
  fix e assume "fst (processPayoutDeduction userId amount withdrawalId s) = Inl e"
  then show "snd (processPayoutDeduction userId amount withdrawalId s) = s"
    by (rule processPayoutDeduction_atomic)
qed

lemma ex_deposit_fails:
  "fst (depositFunds ''client1'' ''K1'' 20000 exStore) = Inl InsufficientAvailableBalance"
  by (simp add: ex_defs ledger_defs tx_defs fits_defs)

lemma ex_release_fails:
  "fst (releaseFunds ''client1'' ''K3'' 200 exStore) = Inl FreelancerWalletNotFoundOrInactive"
  by (simp add: ex_defs ledger_defs tx_defs fits_defs)

lemma ex_refund_fails:
  "fst (refundFunds ''K4'' 100 True exStore) = Inl RecordNotFound"
  by (simp add: ex_defs ledger_defs tx_defs fits_defs)

lemma ex_move_fails:
  "fst (movePendingToAvailable ''free1'' 100 exStore) = Inl InsufficientPendingBalance"
  by (simp add: ex_defs ledger_defs tx_defs fits_defs)

lemma ex_payout_fails:
  "fst (processPayoutDeduction ''free1'' 100 ''wd1'' exStore) = Inl InsufficientAvailableBalance"
  by (simp add: ex_defs ledger_defs tx_defs fits_defs)

theorem financial_operations_atomic_witness:
  "fst (depositFunds ''client1'' ''K1'' 20000 exStore) = Inl InsufficientAvailableBalance \<and>
   snd (depositFunds ''client1'' ''K1'' 20000 exStore) = exStore \<and>
   fst (releaseFunds ''client1'' ''K3'' 200 exStore) = Inl FreelancerWalletNotFoundOrInactive \<and>
   snd (releaseFunds ''client1'' ''K3'' 200 exStore) = exStore \<and>
   fst (refundFunds ''K4'' 100 True exStore) = Inl RecordNotFound \<and>
   snd (refundFunds ''K4'' 100 True exStore) = exStore \<and>
   fst (movePendingToAvailable ''free1'' 100 exStore) = Inl InsufficientPendingBalance \<and>
   snd (movePendingToAvailable ''free1'' 100 exStore) = exStore \<and>
   fst (processPayoutDeduction ''free1'' 100 ''wd1'' exStore) = Inl InsufficientAvailableBalance \<and>
   snd (processPayoutDeduction ''free1'' 100 ''wd1'' exStore) = exStore"
  using financial_operations_atomic[where userId = "''client1''" and contractId = "''K1''"
      and amount = 20000 and s = exStore]
    financial_operations_atomic[where userId = "''client1''" and contractId = "''K3''"
      and amount = 200 and s = exStore]
    financial_operations_atomic[where userId = "''free1''" and contractId = "''K4''"
      and amount = 100 and s = exStore and isSystemRefund = True and withdrawalId = "''wd1''"]
    ex_deposit_fails ex_release_fails ex_refund_fails ex_move_fails ex_payout_fails
  by simp

text \<open>
  Claim C4. \<open>depositFunds\<close> with a positive amount, on a contract that exists and has an
  escrow account: a caller who is not the contract's client fails with Unauthorized; the
  client fails with the insufficient-funds error when the wallet is absent or its available
  balance is below the amount; otherwise the call succeeds, the client's available balance
  goes down by the amount, the escrow account's held amount goes up by it, and exactly one
  EscrowTransaction (DEPOSIT) and one WalletTransaction (HOLD) are appended. Nothing else
  in the store changes. The rows involved hold 32-bit values, escrow account ids are
  distinct (the primary key), and the held amount plus the amount still fits the column;
  beyond that the store refuses the increment (\<open>depositFunds_overflow\<close>).
\<close>

theorem depositFunds_correct:
  assumes "0 < amount"
    and "distinct (map ea_id (escrowAccounts s))"
    and "contracts s contractId = Some contract"
    and "find (\<lambda>a. ea_contractId a = contractId) (escrowAccounts s) = Some escrow"
    and "escrowFits escrow"
    and "heldAmount escrow + amount \<le> 2147483647"
    and "case wallets s userId of None \<Rightarrow> True | Some cw \<Rightarrow> walletFits cw"
  shows "depositFunds userId contractId amount s =
     (if c_clientId contract \<noteq> userId then (Inl Unauthorized, s)
      else
        case wallets s userId of
          None \<Rightarrow> (Inl InsufficientAvailableBalance, s)
        | Some cw \<Rightarrow>
            if availableBalance cw < amount then (Inl InsufficientAvailableBalance, s)
            else
              (Inr (),
               s\<lparr>wallets := (wallets s)(userId \<mapsto>
                              cw\<lparr>availableBalance := availableBalance cw - amount\<rparr>),
                 escrowAccounts :=
                   map (\<lambda>a. if ea_id a = ea_id escrow
                             then a\<lparr>heldAmount := heldAmount a + amount\<rparr> else a)
                     (escrowAccounts s),
                 escrowTransactions := escrowTransactions s @
                   [\<lparr>et_escrowAccountId = ea_id escrow, et_amount = amount, et_type = E_DEPOSIT,
                     et_sourceWalletId = Some (w_id cw), et_destinationWalletId = None,
                     et_description = ''Deposit for contract '' @ contractId\<rparr>],
                 walletTransactions := walletTransactions s @
                   [\<lparr>wt_walletId = w_id cw, wt_amount = amount, wt_type = T_HOLD,
                     wt_relatedId = Some contractId,
                     wt_metadata = ''Escrow Deposit for Contract '' @ contractId\<rparr>]\<rparr>))"
proof (cases "c_clientId contract = userId")
  case False
  then show ?thesis using assms(1,3,4) depositFunds_unauthorized by simp
next
  case True
  show ?thesis
  proof (cases "wallets s userId")
    case None
    then show ?thesis
      using True assms(1,3,4) depositFunds_insufficient[of amount s contractId contract escrow userId]
      by simp
  next
    case (Some cw)
    then have wf: "walletFits cw" using assms(7) by simp
    show ?thesis
    proof (cases "availableBalance cw < amount")
      case less: True
      then show ?thesis
        using True Some assms(1,3,4)
          depositFunds_insufficient[of amount s contractId contract escrow userId]
        by simp
    next
      case geq: False
      then have le: "amount \<le> availableBalance cw" by simp
      show ?thesis
        using geq Some True
          depositFunds_client[OF assms(1-4) True Some le wf assms(5,6)]
        by simp
    qed
  qed
qed

theorem depositFunds_correct_witness:
  "fst (depositFunds ''client1'' ''K1'' 10000 exStore) = Inr () \<and>
   map_option availableBalance (wallets (snd (depositFunds ''client1'' ''K1'' 10000 exStore)) ''client1'')
     = Some 5000 \<and>
   map heldAmount (escrowAccounts (snd (depositFunds ''client1'' ''K1'' 10000 exStore)))
     = [10000, 10000, 500, 700] \<and>
   map (\<lambda>x. (et_escrowAccountId x, et_type x, et_amount x))
     (escrowTransactions (snd (depositFunds ''client1'' ''K1'' 10000 exStore)))
     = [(''E1'', E_DEPOSIT, 10000)] \<and>
   map (\<lambda>x. (wt_walletId x, wt_type x, wt_amount x))
     (walletTransactions (snd (depositFunds ''client1'' ''K1'' 10000 exStore)))
     = [(''w-client1'', T_HOLD, 10000)] \<and>
   depositFunds ''client1'' ''K1'' 20000 exStore = (Inl InsufficientAvailableBalance, exStore) \<and>
   depositFunds ''client2'' ''K4'' 10 exStore = (Inl InsufficientAvailableBalance, exStore) \<and>
   depositFunds ''free1'' ''K1'' 10 exStore = (Inl Unauthorized, exStore)"
  using depositFunds_correct[of 10000 exStore "''K1''" "exContract ''K1'' ''client1'' ''free1'' C_ACTIVE"
      "exEscrow ''E1'' ''K1'' ''client1'' ''free1'' 0" "''client1''"]
    depositFunds_correct[of 20000 exStore "''K1''" "exContract ''K1'' ''client1'' ''free1'' C_ACTIVE"
      "exEscrow ''E1'' ''K1'' ''client1'' ''free1'' 0" "''client1''"]
    depositFunds_correct[of 10 exStore "''K4''" "exContract ''K4'' ''client2'' ''free1'' C_PENDING"
      "exEscrow ''E4'' ''K4'' ''client2'' ''free1'' 700" "''client2''"]
    depositFunds_correct[of 10 exStore "''K1''" "exContract ''K1'' ''client1'' ''free1'' C_ACTIVE"
      "exEscrow ''E1'' ''K1'' ''client1'' ''free1'' 0" "''free1''"]
  by (simp add: ex_defs fits_defs)

text \<open>
  Claim C5. \<open>releaseFunds\<close> with a positive amount, called by the contract's client on a
  contract with an escrow account (escrow account ids being distinct, as the primary key
  makes them): it fails with the insufficient-funds error when the held amount is below the
  amount; otherwise it credits the freelancer's pending balance through
  \<open>updatePendingBalance\<close>, which fails unless the freelancer has a wallet and is an ACTIVE
  user with the FREELANCER role; on success the held amount goes down by the amount, the
  pending balance goes up by it, and one EscrowTransaction (RELEASE) and one
  WalletTransaction (RELEASE) are appended. The rows involved hold 32-bit values and the
  pending balance plus the amount still fits the column; beyond that the store refuses the
  increment (\<open>releaseFunds_overflow\<close>).
\<close>

theorem releaseFunds_correct:
  assumes "0 < amount"
    and "distinct (map ea_id (escrowAccounts s))"
    and "contracts s contractId = Some contract"
    and "find (\<lambda>a. ea_contractId a = contractId) (escrowAccounts s) = Some escrow"
    and "c_clientId contract = userId"
    and "escrowFits escrow"
    and "case wallets s (c_freelancerId contract) of
           None \<Rightarrow> True
         | Some fw \<Rightarrow> walletFits fw \<and> pendingBalance fw + amount \<le> 2147483647"
  shows "releaseFunds userId contractId amount s =
     (if heldAmount escrow < amount then (Inl InsufficientEscrowFunds, s)
      else
        case wallets s (c_freelancerId contract) of
          None \<Rightarrow> (Inl FreelancerWalletNotFoundOrInactive, s)
        | Some fw \<Rightarrow>
            (case users s (c_freelancerId contract) of
               None \<Rightarrow> (Inl FreelancerWalletNotFoundOrInactive, s)
             | Some usr \<Rightarrow>
                 if u_role usr = FREELANCER \<and> u_status usr = U_ACTIVE then
                   (Inr (),
                    s\<lparr>escrowAccounts :=
                        map (\<lambda>a. if ea_id a = ea_id escrow
                                  then a\<lparr>heldAmount := heldAmount a - amount\<rparr> else a)
                          (escrowAccounts s),
                      wallets := (wallets s)(c_freelancerId contract \<mapsto>
                                   fw\<lparr>pendingBalance := pendingBalance fw + amount\<rparr>),
                      walletTransactions := walletTransactions s @
                        [\<lparr>wt_walletId = w_id fw, wt_amount = amount, wt_type = T_RELEASE,
                          wt_relatedId = None,
                          wt_metadata = ''Milestone Completion (Pending)''\<rparr>],
                      escrowTransactions := escrowTransactions s @
                        [\<lparr>et_escrowAccountId = ea_id escrow, et_amount = amount,
                          et_type = E_RELEASE, et_sourceWalletId = None,
                          et_destinationWalletId = Some (w_id fw),
                          et_description =
                            ''Funds released for Contract '' @ contractId @ '' milestone''\<rparr>]\<rparr>)
                 else (Inl FreelancerWalletNotFoundOrInactive, s)))"
proof (cases "heldAmount escrow < amount")
  case True
  then show ?thesis using assms(1-5) releaseFunds_insufficient by simp
next
  case False
  then have le: "amount \<le> heldAmount escrow" by simp
  show ?thesis
  proof (cases "\<exists>fw usr. wallets s (c_freelancerId contract) = Some fw \<and>
            users s (c_freelancerId contract) = Some usr \<and>
            u_role usr = FREELANCER \<and> u_status usr = U_ACTIVE")
    case True
    then obtain fw usr where w: "wallets s (c_freelancerId contract) = Some fw"
        "users s (c_freelancerId contract) = Some usr"
        "u_role usr = FREELANCER" "u_status usr = U_ACTIVE"
      by blast
    have wf: "walletFits fw" "pendingBalance fw + amount \<le> 2147483647"
      using assms(7) w(1) by simp_all
    show ?thesis
      using False w releaseFunds_client[OF assms(1-5) le w assms(6) wf] by simp
  next
    case no: False
    then show ?thesis
      using False releaseFunds_no_wallet[OF assms(1-5) le assms(6) no]
      by (auto split: option.splits)
  qed
qed

theorem releaseFunds_correct_witness:
  "fst (releaseFunds ''client1'' ''K2'' 4000 exStore) = Inr () \<and>
   map heldAmount (escrowAccounts (snd (releaseFunds ''client1'' ''K2'' 4000 exStore)))
     = [0, 6000, 500, 700] \<and>
   map_option pendingBalance (wallets (snd (releaseFunds ''client1'' ''K2'' 4000 exStore)) ''free1'')
     = Some 4000 \<and>
   map (\<lambda>x. (et_escrowAccountId x, et_type x, et_amount x))
     (escrowTransactions (snd (releaseFunds ''client1'' ''K2'' 4000 exStore)))
     = [(''E2'', E_RELEASE, 4000)] \<and>
   map (\<lambda>x. (wt_walletId x, wt_type x, wt_amount x))
     (walletTransactions (snd (releaseFunds ''client1'' ''K2'' 4000 exStore)))
     = [(''w-free1'', T_RELEASE, 4000)] \<and>
   releaseFunds ''client1'' ''K2'' 10001 exStore = (Inl InsufficientEscrowFunds, exStore) \<and>
   releaseFunds ''client1'' ''K3'' 200 exStore = (Inl FreelancerWalletNotFoundOrInactive, exStore)"
  using releaseFunds_correct[of 4000 exStore "''K2''" "exContract ''K2'' ''client1'' ''free1'' C_ACTIVE"
      "exEscrow ''E2'' ''K2'' ''client1'' ''free1'' 10000" "''client1''"]
    releaseFunds_correct[of 10001 exStore "''K2''" "exContract ''K2'' ''client1'' ''free1'' C_ACTIVE"
      "exEscrow ''E2'' ''K2'' ''client1'' ''free1'' 10000" "''client1''"]
    releaseFunds_correct[of 200 exStore "''K3''" "exContract ''K3'' ''client1'' ''free2'' C_ACTIVE"
      "exEscrow ''E3'' ''K3'' ''client1'' ''free2'' 500" "''client1''"]
  by (simp add: ex_defs fits_defs)

text \<open>
  Claim C6 is about two calls running at the same time on one wallet. The operations
  of this development run one at a time, each on the store the previous one left; what
  two interleaved transactions see of each other is decided by the isolation level of the
  database, which the services do not set, and is not part of this model.
\<close>

text \<open>
  Claim C8 says that the wallet operations fail with a validation error on a
  non-positive amount. They do not fail: each returns normally at its first line.
\<close>

theorem wallet_ops_nonpositive_amount_counterexample:
  "updatePendingBalance ''free1'' 0 exStore = (Inr (), exStore) \<and>
   movePendingToAvailable ''free1'' 0 exStore = (Inr (), exStore) \<and>
   processPayoutDeduction ''client1'' (- 500) ''wd1'' exStore = (Inr (), exStore)"
  by (simp add: updatePendingBalance_def movePendingToAvailable_def processPayoutDeduction_def
      ret_def)


text \<open>
  Claim C8, amended. Called with a non-positive amount, \<open>updatePendingBalance\<close>,
  \<open>movePendingToAvailable\<close> and \<open>processPayoutDeduction\<close> return without an error and
  without any effect: no balance changes and no WalletTransaction row is written.
\<close>

theorem wallet_ops_nonpositive_amount_noop:
  assumes "amount \<le> 0"
  shows "updatePendingBalance userId amount s = (Inr (), s) \<and>
         movePendingToAvailable userId amount s = (Inr (), s) \<and>
         processPayoutDeduction userId amount withdrawalId s = (Inr (), s)"
  using assms
  by (simp add: updatePendingBalance_def movePendingToAvailable_def processPayoutDeduction_def
      ret_def)

theorem wallet_ops_nonpositive_amount_noop_witness:
  "(- 1 :: int) \<le> 0 \<and>
   updatePendingBalance ''free1'' (- 1) exStore = (Inr (), exStore) \<and>
   movePendingToAvailable ''free1'' (- 1) exStore = (Inr (), exStore) \<and>
   processPayoutDeduction ''free1'' (- 1) ''wd1'' exStore = (Inr (), exStore)"
  using wallet_ops_nonpositive_amount_noop[of "- 1" "''free1''" exStore "''wd1''"]
  by simp

section \<open>Facts about the contract and milestone services\<close>

lemmas milestone_store_defs = milestone_findUnique_def milestone_count_def milestone_findMany_def
  milestone_create_def milestone_update_def milestone_delete_def getContractById_def

lemmas validator_defs = ContractValidator_validateContractExists_def validateContractStatus_def
  validateUserAccess_def validateClientOnly_def validateFreelancerOnly_def
  validateMilestoneData_def validatePartialMilestoneData_def
  MilestoneService_validateStatusTransition_def ContractService_validateStatusTransition_def
  ContractService_validateContractExists_def ContractValidator_member_def validateRoleOnly_def

lemmas milestone_op_defs = markMilestoneAsApprovedByFreelancer_def rejectMilestone_def
  submitMilestone_def disputeMilestone_def approveWorkByClient_def

lemmas contract_op_defs = startContract_def submitWork_def completeContract_def
  disputeContract_def terminateContract_def

lemmas milestone_defs = withMilestoneContext_def validateAndGetContext_def getMilestone_def
  getAndValidateContract_def createMilestone_def getMilestones_def getMilestoneById_def
  updateMilestone_def requestDeletion_def acceptRequestDeletion_def milestone_op_defs
  milestone_store_defs

lemmas run_defs = exDTO_def ex_defs milestone_defs validator_defs tx_defs int32_def

subsection \<open>The contract state machine\<close>

lemma contract_op_illegal:
  assumes "contracts s contractId = Some c"
    and "contractOpTarget cop \<notin> set (VALID_TRANSITIONS (c_status c))"
  shows "runContractOp cop now contractId s = (Inl INVALID_CONTRACT_STATUS_TRANSITION, s)"
  using assms
  by (cases cop)
    (simp_all add: contract_op_defs ContractService_validateContractExists_def
      ContractService_validateStatusTransition_def getContractById_def tx_defs)

lemma contract_op_illegal_example:
  "runContractOp StartContract 7 ''K5'' exStore = (Inl INVALID_CONTRACT_STATUS_TRANSITION, exStore) \<and>
   runContractOp DisputeContract 7 ''K1'' exStore = (Inl INVALID_CONTRACT_STATUS_TRANSITION, exStore)"
  using contract_op_illegal[of exStore "''K5''" "exContract ''K5'' ''client1'' ''free1'' C_COMPLETED"
      StartContract 7]
    contract_op_illegal[of exStore "''K1''" "exContract ''K1'' ''client1'' ''free1'' C_ACTIVE"
      DisputeContract 7]
  by (simp add: ex_defs)

subsection \<open>The milestone context\<close>

lemma getAndValidateContract_ok:
  "contracts s cid = Some c \<Longrightarrow> c_status c = C_ACTIVE \<or> c_status c = C_PENDING \<Longrightarrow>
   c_clientId c = u \<or> c_freelancerId c = u \<Longrightarrow>
   getAndValidateContract cid u s = (Inr c, s)"
  by (auto simp: getAndValidateContract_def getContractById_def tx_defs
      ContractValidator_validateContractExists_def validateContractStatus_def
      validateUserAccess_def)

lemma getAndValidateContract_readonly:
  "snd (getAndValidateContract cid u s) = s"
  by (auto simp: getAndValidateContract_def getContractById_def tx_defs
      ContractValidator_validateContractExists_def validateContractStatus_def
      validateUserAccess_def Let_def split: option.splits)

lemma getAndValidateContract_inactive:
  "contracts s cid = Some c \<Longrightarrow> c_status c \<noteq> C_ACTIVE \<Longrightarrow> c_status c \<noteq> C_PENDING \<Longrightarrow>
   getAndValidateContract cid u s = (Inl CONTRACT_INACTIVE, s)"
  by (auto simp: getAndValidateContract_def getContractById_def tx_defs
      ContractValidator_validateContractExists_def validateContractStatus_def)

text \<open>
  Neither \<open>validateCLIENTOnly\<close> nor \<open>validateFREELANCEROnly\<close> is a member of
  \<open>ContractValidator\<close>, so the role check of \<open>withMilestoneContext\<close> throws for both roles,
  whoever the caller is.
\<close>

lemma role_member_undefined:
  "ContractValidator_member (''validate'' @ roleName role @ ''Only'') = None"
  by (cases role) (simp_all add: ContractValidator_member_def)

lemma validateRoleOnly_TypeError:
  "validateRoleOnly role c u = Inl TypeError"
  by (cases role) (simp_all add: validateRoleOnly_def ContractValidator_member_def)

lemma withMilestoneContext_no_milestone:
  "find (\<lambda>m. m_id m = mid) (milestones s) = None \<Longrightarrow>
   withMilestoneContext mid u role cb s = (Inl MILESTONE_NOT_FOUND, s)"
  by (simp add: withMilestoneContext_def validateAndGetContext_def getMilestone_def
      milestone_findUnique_def tx_defs)

lemma withMilestoneContext_TypeError:
  assumes "find (\<lambda>m. m_id m = mid) (milestones s) = Some m"
    and "contracts s (m_contractId m) = Some c"
    and "c_status c = C_ACTIVE \<or> c_status c = C_PENDING"
    and "c_clientId c = u \<or> c_freelancerId c = u"
  shows "withMilestoneContext mid u role cb s = (Inl TypeError, s)"
  using assms(1) getAndValidateContract_ok[OF assms(2-4)]
  by (simp add: withMilestoneContext_def validateAndGetContext_def getMilestone_def
      milestone_findUnique_def tx_defs validateRoleOnly_TypeError)

text \<open>So \<open>withMilestoneContext\<close> never runs its callback: it fails, and the store is as before.\<close>

lemma withMilestoneContext_fails:
  "\<exists>e. withMilestoneContext mid u role cb s = (Inl e, s)"
proof (cases "find (\<lambda>m. m_id m = mid) (milestones s)")
  case None
  then show ?thesis using withMilestoneContext_no_milestone by blast
next
  case (Some m)
  have ro: "snd (getAndValidateContract (m_contractId m) u s) = s"
    by (rule getAndValidateContract_readonly)
  show ?thesis
  proof (cases "fst (getAndValidateContract (m_contractId m) u s)")
    case (Inl e)
    then have "getAndValidateContract (m_contractId m) u s = (Inl e, s)"
      using ro by (metis prod.collapse)
    then have "withMilestoneContext mid u role cb s = (Inl e, s)"
      using Some
      by (simp add: withMilestoneContext_def validateAndGetContext_def getMilestone_def
          milestone_findUnique_def tx_defs)
    then show ?thesis by blast
  next
    case (Inr c)
    then have "getAndValidateContract (m_contractId m) u s = (Inr c, s)"
      using ro by (metis prod.collapse)
    then have "withMilestoneContext mid u role cb s = (Inl TypeError, s)"
      using Some
      by (simp add: withMilestoneContext_def validateAndGetContext_def getMilestone_def
          milestone_findUnique_def tx_defs validateRoleOnly_TypeError)
    then show ?thesis by blast
  qed
qed

lemma withMilestoneContext_store:
  "snd (withMilestoneContext mid u role cb s) = s"
  using withMilestoneContext_fails[of mid u role cb s] by auto

lemma runMilestoneOp_context:
  "\<exists>cb. runMilestoneOp mop b now mid u = withMilestoneContext mid u (milestoneOpRole mop) cb"
  by (cases mop) (auto simp: milestone_op_defs)

lemma runMilestoneOp_store:
  "snd (runMilestoneOp mop b now mid u s) = s"
  using runMilestoneOp_context[of mop b now mid u] withMilestoneContext_store by auto

text \<open>
  On a milestone of an ACTIVE or PENDING contract, called by a party of the contract,
  every status operation, \<open>requestDeletion\<close> and \<open>acceptRequestDeletion\<close> end in the
  \<open>TypeError\<close> of the role check, whatever the milestone's status and whether or not a
  deletion was requested.
\<close>

lemma runMilestoneOp_TypeError:
  assumes "find (\<lambda>m. m_id m = mid) (milestones s) = Some m"
    and "contracts s (m_contractId m) = Some c"
    and "c_status c = C_ACTIVE \<or> c_status c = C_PENDING"
    and "c_clientId c = u \<or> c_freelancerId c = u"
  shows "runMilestoneOp mop b now mid u s = (Inl TypeError, s)"
  using runMilestoneOp_context[of mop b now mid u] withMilestoneContext_TypeError[OF assms]
  by auto

lemma deletion_handshake_TypeError:
  assumes "find (\<lambda>m. m_id m = mid) (milestones s) = Some m"
    and "contracts s (m_contractId m) = Some c"
    and "c_status c = C_ACTIVE \<or> c_status c = C_PENDING"
    and "c_clientId c = u \<or> c_freelancerId c = u"
  shows "requestDeletion now mid u s = (Inl TypeError, s)"
    and "acceptRequestDeletion mid u s = (Inl TypeError, s)"
  by (simp_all add: requestDeletion_def acceptRequestDeletion_def
      withMilestoneContext_TypeError[OF assms])

subsection \<open>Creation and the sequence numbers\<close>

lemma createMilestone_assigns_count_plus_one:
  assumes "createMilestone newId now data u s = (Inr row, s')"
  shows "m_sequence row = int (length (sequencesOf (dto_contractId data) s)) + 1 \<and>
         m_contractId row = dto_contractId data \<and>
         milestones s' = milestones s @ [row]"
proof -
  have ro: "snd (getAndValidateContract (dto_contractId data) u s) = s"
    by (rule getAndValidateContract_readonly)
  obtain c where g: "getAndValidateContract (dto_contractId data) u s = (Inr c, s)"
    using assms ro
    by (cases "getAndValidateContract (dto_contractId data) u s")
       (auto simp: createMilestone_def bindTx_def split: sum.splits)
  from assms show ?thesis
    by (auto simp: createMilestone_def g bindTx_def check_def transaction_def sequencesOf_def
        milestone_count_def milestone_create_def
        split: sum.splits option.splits prod.splits if_splits)
qed

lemma createMilestone_failure_store:
  assumes "fst (createMilestone newId now data u s) = Inl e"
  shows "snd (createMilestone newId now data u s) = s"
proof -
  have ro: "snd (getAndValidateContract (dto_contractId data) u s) = s"
    by (rule getAndValidateContract_readonly)
  show ?thesis
  proof (cases "fst (getAndValidateContract (dto_contractId data) u s)")
    case (Inl e')
    then have "getAndValidateContract (dto_contractId data) u s = (Inl e', s)"
      using ro by (metis prod.collapse)
    then show ?thesis by (simp add: createMilestone_def bindTx_def)
  next
    case (Inr c)
    then have g: "getAndValidateContract (dto_contractId data) u s = (Inr c, s)"
      using ro by (metis prod.collapse)
    from assms show ?thesis
      by (auto simp: createMilestone_def g bindTx_def check_def transaction_def
          milestone_count_def milestone_create_def
          split: sum.splits option.splits prod.splits if_splits)
  qed
qed

text \<open>A call either leaves the milestone table as it is or appends the row it created.\<close>

lemma runMilestoneCall_rows:
  "milestones (runMilestoneCall call s) = milestones s \<or>
   (\<exists>row. milestones (runMilestoneCall call s) = milestones s @ [row] \<and>
      m_sequence row = int (length (sequencesOf (m_contractId row) s)) + 1)"
proof (cases call)
  case (CreateMilestone newId now data u)
  show ?thesis
  proof (cases "fst (createMilestone newId now data u s)")
    case (Inl e)
    then show ?thesis using CreateMilestone createMilestone_failure_store by simp
  next
    case (Inr row)
    then have "createMilestone newId now data u s = (Inr row, snd (createMilestone newId now data u s))"
      by (metis prod.collapse)
    from createMilestone_assigns_count_plus_one[OF this]
    show ?thesis using CreateMilestone by auto
  qed
next
  case (GetMilestones cid u)
  then show ?thesis by (simp add: getMilestones_def withMilestoneContext_store)
next
  case (GetMilestoneById mid)
  then show ?thesis by (simp add: getMilestoneById_def milestone_findUnique_def)
next
  case (UpdateMilestone now mid u data)
  then show ?thesis by (simp add: updateMilestone_def withMilestoneContext_store)
next
  case (StatusOp mop b now mid u)
  then show ?thesis by (simp add: runMilestoneOp_store)
next
  case (RequestDeletion now mid u)
  then show ?thesis by (simp add: requestDeletion_def withMilestoneContext_store)
next
  case (AcceptRequestDeletion mid u)
  then show ?thesis by (simp add: acceptRequestDeletion_def withMilestoneContext_store)
qed

lemma runMilestoneCalls_rows:
  "\<exists>rows. milestones (runMilestoneCalls calls s) = milestones s @ rows"
proof (induction calls arbitrary: s)
  case Nil
  show ?case by simp
next
  case (Cons call calls)
  obtain rows where r: "milestones (runMilestoneCalls calls (runMilestoneCall call s)) =
      milestones (runMilestoneCall call s) @ rows"
    using Cons.IH by blast
  from runMilestoneCall_rows[of call s] show ?case
  proof
    assume "milestones (runMilestoneCall call s) = milestones s"
    then show ?thesis using r by simp
  next
    assume "\<exists>row. milestones (runMilestoneCall call s) = milestones s @ [row] \<and>
      m_sequence row = int (length (sequencesOf (m_contractId row) s)) + 1"
    then show ?thesis using r by auto
  qed
qed

lemma upto_snoc:
  "[1..int n] @ [int n + 1] = [1..int (Suc n)]"
proof -
  have "[1..int n + 1] = [1..int n + 1 - 1] @ [int n + 1]"
    by (rule upto_rec2) simp
  then show ?thesis by (simp add: add.commute)
qed

lemma sequencesOf_append:
  "milestones s' = milestones s @ [row] \<Longrightarrow>
   sequencesOf c s' = sequencesOf c s @ (if m_contractId row = c then [m_sequence row] else [])"
  by (simp add: sequencesOf_def)

lemma runMilestoneCall_sequences:
  assumes inv: "\<forall>c. sequencesOf c s = [1..int (length (sequencesOf c s))]"
  shows "sequencesOf c (runMilestoneCall call s) =
           [1..int (length (sequencesOf c (runMilestoneCall call s)))]"
  using runMilestoneCall_rows[of call s]
proof
  assume "milestones (runMilestoneCall call s) = milestones s"
  then have "sequencesOf c (runMilestoneCall call s) = sequencesOf c s"
    by (simp add: sequencesOf_def)
  then show ?thesis using inv by simp
next
  assume "\<exists>row. milestones (runMilestoneCall call s) = milestones s @ [row] \<and>
      m_sequence row = int (length (sequencesOf (m_contractId row) s)) + 1"
  then obtain row where row: "milestones (runMilestoneCall call s) = milestones s @ [row]"
    and sq: "m_sequence row = int (length (sequencesOf (m_contractId row) s)) + 1"
    by blast
  show ?thesis
  proof (cases "m_contractId row = c")
    case False
    then have "sequencesOf c (runMilestoneCall call s) = sequencesOf c s"
      using sequencesOf_append[OF row, of c] by simp
    then show ?thesis using inv by simp
  next
    case True
    let ?n = "length (sequencesOf c s)"
    have "sequencesOf c (runMilestoneCall call s) = sequencesOf c s @ [int ?n + 1]"
      using sequencesOf_append[OF row, of c] True sq by simp
    moreover have "sequencesOf c s = [1..int ?n]" using inv by blast
    ultimately have "sequencesOf c (runMilestoneCall call s) = [1..int ?n] @ [int ?n + 1]"
      by simp
    then have e: "sequencesOf c (runMilestoneCall call s) = [1..int (Suc ?n)]"
      by (simp only: upto_snoc)
    then have "length (sequencesOf c (runMilestoneCall call s)) = Suc ?n"
      by simp
    then show ?thesis using e by simp
  qed
qed

lemma runMilestoneCalls_sequences:
  "\<forall>c. sequencesOf c s = [1..int (length (sequencesOf c s))] \<Longrightarrow>
   sequencesOf c (runMilestoneCalls calls s) =
     [1..int (length (sequencesOf c (runMilestoneCalls calls s)))]"
proof (induction calls arbitrary: s)
  case Nil
  then show ?case by simp
next
  case (Cons call calls)
  have "\<forall>c. sequencesOf c (runMilestoneCall call s) =
      [1..int (length (sequencesOf c (runMilestoneCall call s)))]"
    using runMilestoneCall_sequences[OF Cons.prems] by blast
  from Cons.IH[OF this] show ?case by simp
qed

lemma upto_fresh:
  "xs = [1..int (length xs)] \<Longrightarrow> int (length xs) + 1 \<notin> set xs \<and> distinct xs"
proof -
  assume a: "xs = [1..int (length xs)]"
  have "int (length xs) + 1 \<notin> set [1..int (length xs)]" by simp
  moreover have "distinct [1..int (length xs)]" by simp
  ultimately show ?thesis using a by metis
qed

subsection \<open>The milestone service on the concrete store\<close>

lemma exStore_sequences:
  "sequencesOf c exStore = [1..int (length (sequencesOf c exStore))]"
  by (auto simp: sequencesOf_def ex_defs upto.simps)

lemma createdStore_eq:
  "createdStore = exStore\<lparr>milestones := exMilestones @ [exMilestone ''A'' ''K2'' 1 M_PENDING None]\<rparr>"
  by (simp add: createdStore_def run_defs)

lemma exMilestoneCalls_run:
  "runMilestoneCalls exMilestoneCalls exStore =
     exStore\<lparr>milestones := exMilestones @
       [exMilestone ''A'' ''K2'' 1 M_PENDING None, exMilestone ''B'' ''K2'' 2 M_PENDING None,
        exMilestone ''C'' ''K2'' 3 M_PENDING None]\<rparr>"
  by (simp add: exMilestoneCalls_def run_defs)

section \<open>The contract and milestone state machines: the claims\<close>

text \<open>
  Claim C2 (a status operation asked for a pair outside its transition table fails with
  the invalid-transition error and changes nothing) holds for contracts
  (\<open>contract_op_illegal\<close>) and fails for milestones. The milestone operations check the
  transition inside the callback of \<open>withMilestoneContext\<close>, and the role check before the
  callback calls a member that \<open>ContractValidator\<close> does not have. Below, milestone \<open>A\<close> is
  PENDING on the ACTIVE contract \<open>K2\<close> and the contract's freelancer submits it: PENDING to
  SUBMITTED is not in the table, and the call ends in the \<open>TypeError\<close>, not in
  INVALID_MILESTONE_STATUS_TRANSITION. The milestone is unchanged, as the claim says. The
  last conjunct is the contract operation on a COMPLETED contract.
\<close>

theorem milestone_transition_check_not_reached:
  "map_option m_status (find (\<lambda>x. m_id x = ''A'') (milestones createdStore)) = Some M_PENDING \<and>
   M_SUBMITTED \<notin> set (VALID_STATUS_TRANSITIONS M_PENDING) \<and>
   map_option c_status (contracts createdStore ''K2'') = Some C_ACTIVE \<and>
   map_option c_freelancerId (contracts createdStore ''K2'') = Some ''free1'' \<and>
   runMilestoneOp SubmitMilestone False 14 ''A'' ''free1'' createdStore
     = (Inl TypeError, createdStore) \<and>
   runContractOp StartContract 14 ''K5'' createdStore
     = (Inl INVALID_CONTRACT_STATUS_TRANSITION, createdStore)"
  by (simp add: createdStore_eq ex_defs milestone_defs validator_defs contract_op_defs tx_defs)

text \<open>
  Claim C7. Within each contract the sequence numbers of the milestones are distinct, a
  created milestone receives the number of the contract's milestones plus one, and no
  number is given twice. The store starts with the milestones of every contract numbered
  1, 2, ... in the order of their rows (as they are when every row was created by
  \<open>createMilestone\<close>; an empty table is the simplest case), and any list of calls of the
  milestone service follows, each of which may succeed or fail. Afterwards the milestones
  of every contract are still numbered 1, 2, ... without a gap, so the numbers are
  distinct; every row of the starting store is still there, unchanged and in place; and a
  milestone created next receives the count plus one, a number that no milestone of its
  contract holds. The deletion handshake is among the calls: \<open>acceptRequestDeletion\<close> never
  removes a row (\<open>withMilestoneContext_fails\<close>), so the count never falls.
\<close>

theorem milestone_sequences_unique:
  assumes "\<forall>c. sequencesOf c s = [1..int (length (sequencesOf c s))]"
  shows "(\<forall>c. distinct (sequencesOf c (runMilestoneCalls calls s))) \<and>
         (\<forall>c. sequencesOf c (runMilestoneCalls calls s) =
                [1..int (length (sequencesOf c (runMilestoneCalls calls s)))]) \<and>
         (\<exists>rows. milestones (runMilestoneCalls calls s) = milestones s @ rows) \<and>
         (\<forall>row s'. createMilestone newId now data userId (runMilestoneCalls calls s) = (Inr row, s') \<longrightarrow>
            m_sequence row =
              int (length (sequencesOf (dto_contractId data) (runMilestoneCalls calls s))) + 1 \<and>
            m_sequence row \<notin> set (sequencesOf (dto_contractId data) (runMilestoneCalls calls s)) \<and>
            milestones s' = milestones (runMilestoneCalls calls s) @ [row])"
proof -
  let ?t = "runMilestoneCalls calls s"
  have inv: "sequencesOf c ?t = [1..int (length (sequencesOf c ?t))]" for c
    using runMilestoneCalls_sequences[OF assms] .
  have fresh: "int (length (sequencesOf c ?t)) + 1 \<notin> set (sequencesOf c ?t)"
    and dist: "distinct (sequencesOf c ?t)" for c
    using upto_fresh[OF inv[of c]] by simp_all
  have created: "m_sequence row = int (length (sequencesOf (dto_contractId data) ?t)) + 1 \<and>
      m_sequence row \<notin> set (sequencesOf (dto_contractId data) ?t) \<and>
      milestones s' = milestones ?t @ [row]"
    if "createMilestone newId now data userId ?t = (Inr row, s')" for row s'
    using createMilestone_assigns_count_plus_one[OF that] fresh[of "dto_contractId data"]
    by simp
  show ?thesis
    using dist inv runMilestoneCalls_rows[of calls s] created by blast
qed

theorem milestone_sequences_unique_witness:
  "sequencesOf ''K1'' exStore = [1, 2] \<and>
   sequencesOf ''K2'' exStore = [] \<and>
   sequencesOf ''K5'' exStore = [1] \<and>
   map (\<lambda>m. (m_id m, m_sequence m))
     (filter (\<lambda>m. m_contractId m = ''K2'') (milestones (runMilestoneCalls exMilestoneCalls exStore)))
     = [(''A'', 1), (''B'', 2), (''C'', 3)] \<and>
   distinct (sequencesOf ''K2'' (runMilestoneCalls exMilestoneCalls exStore)) \<and>
   sequencesOf ''K1'' (runMilestoneCalls exMilestoneCalls exStore) = [1, 2] \<and>
   take 3 (milestones (runMilestoneCalls exMilestoneCalls exStore)) = milestones exStore \<and>
   fst (createMilestone ''D'' 14 exDTO ''client1'' (runMilestoneCalls exMilestoneCalls exStore))
     = Inr (exMilestone ''D'' ''K2'' 4 M_PENDING None)"
proof -
  have start: "\<forall>c. sequencesOf c exStore = [1..int (length (sequencesOf c exStore))]"
    using exStore_sequences by blast
  have before: "sequencesOf ''K1'' exStore = [1, 2] \<and> sequencesOf ''K2'' exStore = [] \<and>
      sequencesOf ''K5'' exStore = [1]"
    by (simp add: sequencesOf_def ex_defs)
  have after: "map (\<lambda>m. (m_id m, m_sequence m))
     (filter (\<lambda>m. m_contractId m = ''K2'') (milestones (runMilestoneCalls exMilestoneCalls exStore)))
     = [(''A'', 1), (''B'', 2), (''C'', 3)] \<and>
   sequencesOf ''K1'' (runMilestoneCalls exMilestoneCalls exStore) = [1, 2] \<and>
   take 3 (milestones (runMilestoneCalls exMilestoneCalls exStore)) = milestones exStore"
    unfolding exMilestoneCalls_run by (simp add: sequencesOf_def ex_defs)
  have next_one: "fst (createMilestone ''D'' 14 exDTO ''client1''
        (runMilestoneCalls exMilestoneCalls exStore)) = Inr (exMilestone ''D'' ''K2'' 4 M_PENDING None)"
    unfolding exMilestoneCalls_run by (simp add: run_defs)
  show ?thesis
    using milestone_sequences_unique[OF start, of exMilestoneCalls "''D''" 14 exDTO "''client1''"]
      before after next_one
    by simp
qed

text \<open>
  Claim C9 (the freelancer's \<open>acceptRequestDeletion\<close> fails with NO_DELETION_REQUEST when
  no deletion was requested, and deletes the milestone when one was) fails on the code.
  Both steps of the handshake go through \<open>withMilestoneContext\<close>, whose role check throws
  before the callback. Below, on the ACTIVE contract \<open>K2\<close>: the freelancer accepts the
  deletion of milestone \<open>A\<close>, which nobody requested, and the call ends in the \<open>TypeError\<close>,
  not in NO_DELETION_REQUEST; the client's \<open>requestDeletion\<close> ends in it too and stamps
  nothing; and for milestone \<open>M2\<close> of contract \<open>K1\<close>, whose row carries a request time, the
  freelancer's acceptance ends in it and the row stays.
\<close>

theorem deletion_handshake_not_reached:
  "map_option m_deletionRequestedAt (find (\<lambda>x. m_id x = ''A'') (milestones createdStore))
     = Some None \<and>
   map_option c_status (contracts createdStore ''K2'') = Some C_ACTIVE \<and>
   map_option c_freelancerId (contracts createdStore ''K2'') = Some ''free1'' \<and>
   acceptRequestDeletion ''A'' ''free1'' createdStore = (Inl TypeError, createdStore) \<and>
   requestDeletion 12 ''A'' ''client1'' createdStore = (Inl TypeError, createdStore) \<and>
   map_option m_deletionRequestedAt (find (\<lambda>x. m_id x = ''M2'') (milestones exStore))
     = Some (Some 3) \<and>
   acceptRequestDeletion ''M2'' ''free1'' exStore = (Inl TypeError, exStore)"
  by (simp add: createdStore_eq ex_defs milestone_defs validator_defs tx_defs)

text \<open>
  Claim C10. \<open>getMilestones\<close> hands its \<open>contractId\<close> to \<open>withMilestoneContext\<close> as a
  milestone id. When no milestone has that id it fails with MILESTONE_NOT_FOUND, also
  when the contract exists, has milestones, and the caller is its client.
\<close>

theorem getMilestones_looks_up_a_milestone:
  assumes "find (\<lambda>m. m_id m = contractId) (milestones s) = None"
  shows "getMilestones contractId userId s = (Inl MILESTONE_NOT_FOUND, s)"
  using assms by (simp add: getMilestones_def withMilestoneContext_no_milestone)

theorem getMilestones_looks_up_a_milestone_witness:
  "map_option c_clientId (contracts exStore ''K1'') = Some ''client1'' \<and>
   map_option c_status (contracts exStore ''K1'') = Some C_ACTIVE \<and>
   map m_id (filter (\<lambda>m. m_contractId m = ''K1'') (milestones exStore)) = [''M1'', ''M2''] \<and>
   find (\<lambda>m. m_id m = ''K1'') (milestones exStore) = None \<and>
   getMilestones ''K1'' ''client1'' exStore = (Inl MILESTONE_NOT_FOUND, exStore)"
  using getMilestones_looks_up_a_milestone[of "''K1''" exStore "''client1''"]
  by (simp add: ex_defs)

end
